theory Spec2Isabelle
  imports Main "HOL-Library.Word"
begin

unbundle bit_operations_syntax

section \<open>Go values and the plugin framework's value types\<close>

text \<open>
  A Go \<^verbatim>\<open>[]byte\<close> is a list of 8-bit words; a Go \<^verbatim>\<open>string\<close> is a list of
  8-bit characters. The framework's \<^verbatim>\<open>types.String\<close> and \<^verbatim>\<open>types.Bool\<close> are
  three-state values (null, unknown, known); \<^verbatim>\<open>ValueString\<close> and \<^verbatim>\<open>ValueBool\<close>
  return the zero value for null and unknown.
\<close>

type_synonym bytes = "8 word list"

datatype tfString = StringNull | StringUnknown | StringValue string

datatype tfBool = BoolNull | BoolUnknown | BoolValue bool

fun ValueString :: "tfString \<Rightarrow> string" where
  "ValueString (StringValue s) = s"
| "ValueString _ = []"

fun ValueBool :: "tfBool \<Rightarrow> bool" where
  "ValueBool (BoolValue b) = b"
| "ValueBool _ = False"

text \<open>
  A Go \<^verbatim>\<open>map[string]string\<close> is modelled by the sequence of its entries in the
  order in which one \<^verbatim>\<open>range\<close> loop visits them (Go leaves that order
  unspecified, so a statement about a map holds for every such list).
  \<^verbatim>\<open>types.Map\<close> is null, unknown, or a map of \<^verbatim>\<open>types.String\<close> elements.
\<close>

type_synonym go_map = "(string \<times> string) list"

datatype tfMap = MapNull | MapUnknown | MapValue "(string \<times> tfString) list"

subsection \<open>Errors\<close>

text \<open>
  Go errors: the sentinel \<^verbatim>\<open>tfe.ErrResourceNotFound\<close>, any other error with its
  message, and an error wrapping another one (message, wrapped error).
  \<^verbatim>\<open>errors.Is\<close> walks the chain of wrapped errors.
\<close>

datatype go_error = ErrResourceNotFound | ErrorString string | Wrapped string go_error

fun errors_Is :: "go_error \<Rightarrow> go_error \<Rightarrow> bool" where
  "errors_Is (Wrapped m e) target = (Wrapped m e = target \<or> errors_Is e target)"
| "errors_Is e target = (e = target)"

fun Error :: "go_error \<Rightarrow> string" where
  "Error ErrResourceNotFound = ''resource not found''"
| "Error (ErrorString s) = s"
| "Error (Wrapped m e) = m"

subsection \<open>Diagnostics\<close>

text \<open>
  \<^verbatim>\<open>diag.Diagnostics\<close> is a list of diagnostics, each with a severity, a summary and
  a detail. \<^verbatim>\<open>Append\<close> skips a diagnostic the list already contains.
\<close>

datatype Severity = SeverityError | SeverityWarning

datatype Diagnostic = Diagnostic Severity string string

type_synonym Diagnostics = "Diagnostic list"

fun severity :: "Diagnostic \<Rightarrow> Severity" where
  "severity (Diagnostic s _ _) = s"

fun HasError :: "Diagnostics \<Rightarrow> bool" where
  "HasError [] = False"
| "HasError (d # ds) = (if severity d = SeverityError then True else HasError ds)"

fun Append :: "Diagnostics \<Rightarrow> Diagnostics \<Rightarrow> Diagnostics" where
  "Append diags [] = diags"
| "Append diags (d # ds) = Append (if d \<in> set diags then diags else diags @ [d]) ds"

definition AddError :: "Diagnostics \<Rightarrow> string \<Rightarrow> string \<Rightarrow> Diagnostics" where
  "AddError diags summary detail = Append diags [Diagnostic SeverityError summary detail]"

definition AddWarning :: "Diagnostics \<Rightarrow> string \<Rightarrow> string \<Rightarrow> Diagnostics" where
  "AddWarning diags summary detail = Append diags [Diagnostic SeverityWarning summary detail]"

definition Warnings :: "Diagnostics \<Rightarrow> Diagnostics" where
  "Warnings diags = filter (\<lambda>d. severity d = SeverityWarning) diags"

section \<open>The digest function\<close>

text \<open>
  \<^verbatim>\<open>sha256.Sum256\<close> of the Go standard library, as FIPS 180-4 defines it: the
  message is padded to a multiple of 64 bytes (a 1 bit, zeros, the bit length as a
  big-endian 64-bit integer), and each block is compressed into the eight 32-bit words
  of the hash value. \<^verbatim>\<open>hex.EncodeToString\<close> writes two lowercase digits per byte.
\<close>

type_synonym hash256 =
  "32 word \<times> 32 word \<times> 32 word \<times> 32 word \<times> 32 word \<times> 32 word \<times> 32 word \<times> 32 word"

definition K256 :: "32 word list" where
  "K256 =
    [0x428A2F98, 0x71374491, 0xB5C0FBCF, 0xE9B5DBA5, 0x3956C25B, 0x59F111F1,
     0x923F82A4, 0xAB1C5ED5, 0xD807AA98, 0x12835B01, 0x243185BE, 0x550C7DC3,
     0x72BE5D74, 0x80DEB1FE, 0x9BDC06A7, 0xC19BF174, 0xE49B69C1, 0xEFBE4786,
     0x0FC19DC6, 0x240CA1CC, 0x2DE92C6F, 0x4A7484AA, 0x5CB0A9DC, 0x76F988DA,
     0x983E5152, 0xA831C66D, 0xB00327C8, 0xBF597FC7, 0xC6E00BF3, 0xD5A79147,
     0x06CA6351, 0x14292967, 0x27B70A85, 0x2E1B2138, 0x4D2C6DFC, 0x53380D13,
     0x650A7354, 0x766A0ABB, 0x81C2C92E, 0x92722C85, 0xA2BFE8A1, 0xA81A664B,
     0xC24B8B70, 0xC76C51A3, 0xD192E819, 0xD6990624, 0xF40E3585, 0x106AA070,
     0x19A4C116, 0x1E376C08, 0x2748774C, 0x34B0BCB5, 0x391C0CB3, 0x4ED8AA4A,
     0x5B9CCA4F, 0x682E6FF3, 0x748F82EE, 0x78A5636F, 0x84C87814, 0x8CC70208,
     0x90BEFFFA, 0xA4506CEB, 0xBEF9A3F7, 0xC67178F2]"

definition init256 :: hash256 where
  "init256 = (0x6A09E667, 0xBB67AE85, 0x3C6EF372, 0xA54FF53A,
              0x510E527F, 0x9B05688C, 0x1F83D9AB, 0x5BE0CD19)"

definition rotr :: "nat \<Rightarrow> 32 word \<Rightarrow> 32 word" where
  "rotr n x = drop_bit n x OR push_bit (32 - n) x"

definition Ch :: "32 word \<Rightarrow> 32 word \<Rightarrow> 32 word \<Rightarrow> 32 word" where
  "Ch x y z = (x AND y) XOR (NOT x AND z)"

definition Maj :: "32 word \<Rightarrow> 32 word \<Rightarrow> 32 word \<Rightarrow> 32 word" where
  "Maj x y z = (x AND y) XOR (x AND z) XOR (y AND z)"

definition Sigma0 :: "32 word \<Rightarrow> 32 word" where
  "Sigma0 x = rotr 2 x XOR rotr 13 x XOR rotr 22 x"

definition Sigma1 :: "32 word \<Rightarrow> 32 word" where
  "Sigma1 x = rotr 6 x XOR rotr 11 x XOR rotr 25 x"

definition sigma0 :: "32 word \<Rightarrow> 32 word" where
  "sigma0 x = rotr 7 x XOR rotr 18 x XOR drop_bit 3 x"

definition sigma1 :: "32 word \<Rightarrow> 32 word" where
  "sigma1 x = rotr 17 x XOR rotr 19 x XOR drop_bit 10 x"

fun be_words :: "bytes \<Rightarrow> 32 word list" where
  "be_words (a # b # c # d # rest) =
     (push_bit 24 (ucast a) OR push_bit 16 (ucast b) OR push_bit 8 (ucast c) OR ucast d)
       # be_words rest"
| "be_words _ = []"

fun schedule :: "nat \<Rightarrow> 32 word list \<Rightarrow> 32 word list" where
  "schedule 0 ws = ws"
| "schedule (Suc n) ws =
     (let l = length ws in
      schedule n (ws @ [sigma1 (ws ! (l - 2)) + ws ! (l - 7)
                        + sigma0 (ws ! (l - 15)) + ws ! (l - 16)]))"

fun sha256_round :: "hash256 \<Rightarrow> 32 word \<times> 32 word \<Rightarrow> hash256" where
  "sha256_round (a, b, c, d, e, f, g, h) (k, w) =
     (let t1 = h + Sigma1 e + Ch e f g + k + w;
          t2 = Sigma0 a + Maj a b c
      in (t1 + t2, a, b, c, d + t1, e, f, g))"

fun add256 :: "hash256 \<Rightarrow> hash256 \<Rightarrow> hash256" where
  "add256 (a, b, c, d, e, f, g, h) (a', b', c', d', e', f', g', h') =
     (a + a', b + b', c + c', d + d', e + e', f + f', g + g', h + h')"

definition sha256_block :: "hash256 \<Rightarrow> bytes \<Rightarrow> hash256" where
  "sha256_block H blk =
     add256 H (foldl sha256_round H (zip K256 (schedule 48 (be_words blk))))"

fun chunks64 :: "bytes \<Rightarrow> bytes list" where
  "chunks64 bs = (if bs = [] then [] else take 64 bs # chunks64 (drop 64 bs))"

definition be32_bytes :: "32 word \<Rightarrow> bytes" where
  "be32_bytes x = [ucast (drop_bit 24 x), ucast (drop_bit 16 x), ucast (drop_bit 8 x), ucast x]"

definition be64_bytes :: "64 word \<Rightarrow> bytes" where
  "be64_bytes x = be32_bytes (ucast (drop_bit 32 x)) @ be32_bytes (ucast x)"

definition sha256_pad :: "bytes \<Rightarrow> bytes" where
  "sha256_pad msg =
     msg @ [0x80] @ replicate ((119 - length msg mod 64) mod 64) 0
         @ be64_bytes (push_bit 3 (of_nat (length msg)))"

definition sha256_digest :: "bytes \<Rightarrow> hash256" where
  "sha256_digest msg = foldl sha256_block init256 (chunks64 (sha256_pad msg))"

fun hash256_bytes :: "hash256 \<Rightarrow> bytes" where
  "hash256_bytes (a, b, c, d, e, f, g, h) =
     concat (map be32_bytes [a, b, c, d, e, f, g, h])"

definition sha256_Sum256 :: "bytes \<Rightarrow> bytes" where
  "sha256_Sum256 data = hash256_bytes (sha256_digest data)"

definition hextable :: string where
  "hextable = ''0123456789abcdef''"

fun hex_EncodeToString :: "bytes \<Rightarrow> string" where
  "hex_EncodeToString [] = []"
| "hex_EncodeToString (v # src) =
     hextable ! unat (drop_bit 4 v) # hextable ! unat (v AND 0x0F) # hex_EncodeToString src"

definition sha256Contents :: "bytes \<Rightarrow> tfString" where
  "sha256Contents contents =
     (let hash = sha256_Sum256 contents;
          hashString = hex_EncodeToString hash
      in StringValue hashString)"

section \<open>The two remote services\<close>

text \<open>
  Every call that leaves the process is appended to the trace of the remote world, so
  that "no call", "exactly one call" and "never invoked" are statements about the trace.
  The object store maps (bucket, key) to the stored bytes.
\<close>

record StateVersion =
  DownloadURL :: string

datatype ServerSideEncryption = ServerSideEncryptionAwsKms

datatype ChecksumAlgorithm = ChecksumAlgorithmSha256

record PutObjectInput =
  in_Bucket :: string
  in_Key :: string
  in_Body :: bytes
  in_ContentLength :: int
  in_ContentType :: string
  in_ChecksumAlgorithm :: ChecksumAlgorithm
  in_ServerSideEncryption :: "ServerSideEncryption option"
  in_SSEKMSKeyId :: "string option"
  in_Tagging :: "string option"

datatype s3_request =
    GetObject string string
  | PutObject PutObjectInput
  | DeleteObject string string

datatype call =
    ReadCurrentCall string
  | DownloadCall string
  | S3Call s3_request

record remote =
  objects :: "string \<times> string \<Rightarrow> bytes option"
  trace :: "call list"

text \<open>
  A client is the handle through which the provider reaches a service. The state-source
  client answers \<^verbatim>\<open>StateVersions.ReadCurrent\<close> (the current version of a workspace, or
  an error) and \<^verbatim>\<open>StateVersions.Download\<close> (the bytes behind a download URL, or an
  error). The object-store client may fail any request (transport or service error), and
  may fail while the body of a fetched object is read.
\<close>

record tfe_Client =
  ReadCurrent :: "string \<Rightarrow> go_error + StateVersion"
  Download :: "string \<Rightarrow> go_error + bytes"

record s3_Client =
  s3_fault :: "s3_request \<Rightarrow> go_error option"
  body_fault :: "string \<times> string \<Rightarrow> go_error option"

definition StateVersions_ReadCurrent ::
  "tfe_Client \<Rightarrow> string \<Rightarrow> remote \<Rightarrow> (go_error + StateVersion) \<times> remote" where
  "StateVersions_ReadCurrent client workspaceId w =
     (ReadCurrent client workspaceId, w\<lparr>trace := trace w @ [ReadCurrentCall workspaceId]\<rparr>)"

definition StateVersions_Download ::
  "tfe_Client \<Rightarrow> string \<Rightarrow> remote \<Rightarrow> (go_error + bytes) \<times> remote" where
  "StateVersions_Download client url w =
     (Download client url, w\<lparr>trace := trace w @ [DownloadCall url]\<rparr>)"

section \<open>Fetching the current remote state\<close>

definition getStateFile ::
  "tfe_Client \<Rightarrow> string \<Rightarrow> bool \<Rightarrow> remote \<Rightarrow> (bytes \<times> Diagnostics \<times> bool) \<times> remote" where
  "getStateFile client workspaceId ignoreEmpty w =
     (case StateVersions_ReadCurrent client workspaceId w of
        (Inl err, w1) \<Rightarrow>
          if ignoreEmpty \<and> errors_Is err ErrResourceNotFound
          then (([], [], True), w1)
          else (([], AddError [] ''tfe client''
                       (''failed to get state version: '' @ Error err), False), w1)
      | (Inr ver, w1) \<Rightarrow>
          (case StateVersions_Download client (DownloadURL ver) w1 of
             (Inl err, w2) \<Rightarrow>
               (([], AddError [] ''tfe client''
                       (''failed to download state: '' @ Error err), False), w2)
           | (Inr state, w2) \<Rightarrow> ((state, [], False), w2)))"

section \<open>Tag serialization\<close>

text \<open>
  \<^verbatim>\<open>url.QueryEscape\<close> of the Go standard library: letters, digits and the four
  marks \<^verbatim>\<open>- _ . ~\<close> stay; a space becomes \<^verbatim>\<open>+\<close>; every other byte becomes
  \<^verbatim>\<open>%\<close> and its two uppercase hexadecimal digits.
\<close>

definition shouldEscape :: "char \<Rightarrow> bool" where
  "shouldEscape c =
     (let n = (of_char c :: nat) in
      if (97 \<le> n \<and> n \<le> 122) \<or> (65 \<le> n \<and> n \<le> 90) \<or> (48 \<le> n \<and> n \<le> 57) then False
      else if c = CHR ''-'' \<or> c = CHR ''_'' \<or> c = CHR ''.'' \<or> c = CHR ''~'' then False
      else True)"

definition upperhex :: string where
  "upperhex = ''0123456789ABCDEF''"

definition escape_byte :: "char \<Rightarrow> string" where
  "escape_byte c =
     (if c = CHR '' '' then ''+''
      else if shouldEscape c
        then [CHR ''%'', upperhex ! ((of_char c :: nat) div 16), upperhex ! ((of_char c :: nat) mod 16)]
      else [c])"

definition QueryEscape :: "string \<Rightarrow> string" where
  "QueryEscape s = concat (map escape_byte s)"

fun strings_Join :: "string list \<Rightarrow> string \<Rightarrow> string" where
  "strings_Join [] sep = []"
| "strings_Join [x] sep = x"
| "strings_Join (x # y # ys) sep = x @ sep @ strings_Join (y # ys) sep"

text \<open>
  The loop of \<^verbatim>\<open>newTags\<close> appends one \<^verbatim>\<open>key=value\<close> pair per entry of the map,
  in the order the \<^verbatim>\<open>range\<close> visits them.
\<close>

fun tagPairs_loop :: "go_map \<Rightarrow> string list \<Rightarrow> string list" where
  "tagPairs_loop [] tagPairs = tagPairs"
| "tagPairs_loop ((k, v) # rest) tagPairs =
     tagPairs_loop rest (tagPairs @ [QueryEscape k @ ''='' @ QueryEscape v])"

definition newTags :: "go_map \<Rightarrow> string" where
  "newTags tags = strings_Join (tagPairs_loop tags []) ''&''"

subsection \<open>Reading a tag string back\<close>

text \<open>
  The repository has no decoder. The one below follows the words of the round-trip
  property: split the string at \<^verbatim>\<open>&\<close>, split each piece at \<^verbatim>\<open>=\<close> into exactly a key
  and a value, and URL-unescape both (\<^verbatim>\<open>url.QueryUnescape\<close>: \<^verbatim>\<open>+\<close> is a space,
  \<^verbatim>\<open>%XY\<close> is the byte with hexadecimal digits X and Y, a \<^verbatim>\<open>%\<close> not followed by two
  hexadecimal digits is an error).
\<close>

fun split_on :: "char \<Rightarrow> string \<Rightarrow> string list" where
  "split_on sep [] = [[]]"
| "split_on sep (c # cs) =
     (if c = sep then [] # split_on sep cs
      else (case split_on sep cs of
              [] \<Rightarrow> [[c]]
            | p # ps \<Rightarrow> (c # p) # ps))"

definition ishex :: "char \<Rightarrow> bool" where
  "ishex c =
     (let n = (of_char c :: nat) in
      (48 \<le> n \<and> n \<le> 57) \<or> (97 \<le> n \<and> n \<le> 102) \<or> (65 \<le> n \<and> n \<le> 70))"

definition unhex :: "char \<Rightarrow> nat" where
  "unhex c =
     (let n = (of_char c :: nat) in
      if 48 \<le> n \<and> n \<le> 57 then n - 48
      else if 97 \<le> n \<and> n \<le> 102 then n - 97 + 10
      else if 65 \<le> n \<and> n \<le> 70 then n - 65 + 10
      else 0)"

fun QueryUnescape :: "string \<Rightarrow> string option" where
  "QueryUnescape [] = Some []"
| "QueryUnescape (c # cs) =
     (if c = CHR ''%'' then
        (case cs of
           a # b # rest \<Rightarrow>
             if ishex a \<and> ishex b
             then map_option (Cons (char_of (unhex a * 16 + unhex b))) (QueryUnescape rest)
             else None
         | _ \<Rightarrow> None)
      else if c = CHR ''+'' then map_option (Cons CHR '' '') (QueryUnescape cs)
      else map_option (Cons c) (QueryUnescape cs))"

definition parsePair :: "string \<Rightarrow> (string \<times> string) option" where
  "parsePair p =
     (case split_on CHR ''='' p of
        [k, v] \<Rightarrow>
          (case (QueryUnescape k, QueryUnescape v) of
             (Some k', Some v') \<Rightarrow> Some (k', v')
           | _ \<Rightarrow> None)
      | _ \<Rightarrow> None)"

fun parsePairs :: "string list \<Rightarrow> go_map option" where
  "parsePairs [] = Some []"
| "parsePairs (p # ps) =
     (case (parsePair p, parsePairs ps) of
        (Some kv, Some kvs) \<Rightarrow> Some (kv # kvs)
      | _ \<Rightarrow> None)"

definition parseTags :: "string \<Rightarrow> go_map option" where
  "parseTags s = parsePairs (split_on CHR ''&'' s)"

section \<open>The object-store adapter\<close>

text \<open>
  The three requests of the object-store service. Each is recorded in the trace whether
  or not the service accepts it. \<^verbatim>\<open>GetObject\<close> answers with the body of the stored
  object, which \<^verbatim>\<open>io.ReadAll\<close> then drains (and may fail to); \<^verbatim>\<open>PutObject\<close> stores the
  body under (bucket, key); \<^verbatim>\<open>DeleteObject\<close> removes the object.
\<close>

definition client_GetObject ::
  "s3_Client \<Rightarrow> string \<Rightarrow> string \<Rightarrow> remote \<Rightarrow> (go_error + (go_error + bytes)) \<times> remote" where
  "client_GetObject client bucket key w =
     (let w' = w\<lparr>trace := trace w @ [S3Call (GetObject bucket key)]\<rparr> in
      case s3_fault client (GetObject bucket key) of
        Some err \<Rightarrow> (Inl err, w')
      | None \<Rightarrow>
          (case objects w (bucket, key) of
             None \<Rightarrow> (Inl (ErrorString ''NoSuchKey''), w')
           | Some stored \<Rightarrow>
               (case body_fault client (bucket, key) of
                  Some err \<Rightarrow> (Inr (Inl err), w')
                | None \<Rightarrow> (Inr (Inr stored), w'))))"

definition io_ReadAll :: "go_error + bytes \<Rightarrow> go_error + bytes" where
  "io_ReadAll body = body"

definition client_PutObject ::
  "s3_Client \<Rightarrow> PutObjectInput \<Rightarrow> remote \<Rightarrow> go_error option \<times> remote" where
  "client_PutObject client input w =
     (let w' = w\<lparr>trace := trace w @ [S3Call (PutObject input)]\<rparr> in
      case s3_fault client (PutObject input) of
        Some err \<Rightarrow> (Some err, w')
      | None \<Rightarrow>
          (None, w'\<lparr>objects := (objects w')((in_Bucket input, in_Key input) \<mapsto> in_Body input)\<rparr>))"

definition client_DeleteObject ::
  "s3_Client \<Rightarrow> string \<Rightarrow> string \<Rightarrow> remote \<Rightarrow> go_error option \<times> remote" where
  "client_DeleteObject client bucket key w =
     (let w' = w\<lparr>trace := trace w @ [S3Call (DeleteObject bucket key)]\<rparr> in
      case s3_fault client (DeleteObject bucket key) of
        Some err \<Rightarrow> (Some err, w')
      | None \<Rightarrow> (None, w'\<lparr>objects := (objects w')((bucket, key) := None)\<rparr>))"

definition getS3ObjectContents ::
  "s3_Client \<Rightarrow> string \<Rightarrow> string \<Rightarrow> remote \<Rightarrow> (bytes \<times> Diagnostics) \<times> remote" where
  "getS3ObjectContents client bucket key w =
     (case client_GetObject client bucket key w of
        (Inl err, w') \<Rightarrow>
          (([], AddError [] ''s3 client'' (''failed to get object: '' @ Error err)), w')
      | (Inr body, w') \<Rightarrow>
          (case io_ReadAll body of
             Inl err \<Rightarrow>
               (([], AddError [] ''s3 client'' (''failed to read body: '' @ Error err)), w')
           | Inr contents \<Rightarrow> ((contents, []), w')))"

record putObjectOptions =
  o_Bucket :: string
  o_Key :: string
  o_KmsKeyId :: string
  o_Contents :: bytes
  o_Tags :: go_map

text \<open>The receiver of \<^verbatim>\<open>validate\<close> is a pointer: \<open>None\<close> is the nil receiver.\<close>

fun validate :: "putObjectOptions option \<Rightarrow> Diagnostics" where
  "validate None = AddError [] ''putObjectOptions'' ''nil receiver''"
| "validate (Some opts) =
     (let diag = [];
          diag = (if o_Bucket opts = [] then AddError diag ''putObjectOptions'' ''empty bucket''
                  else diag);
          diag = (if o_Key opts = [] then AddError diag ''putObjectOptions'' ''empty key''
                  else diag);
          diag = (if length (o_Contents opts) = 0
                  then AddError diag ''putObjectOptions'' ''empty contents''
                  else diag)
      in diag)"

text \<open>
  The request that \<^verbatim>\<open>putS3ObjectContents\<close> builds from the options: content type
  and checksum algorithm are fixed, server-side encryption is requested when the key id
  is not empty, and the tag string is attached when the tag map is not empty.
\<close>

definition newPutObjectInput :: "putObjectOptions \<Rightarrow> PutObjectInput" where
  "newPutObjectInput opts =
     (let input = \<lparr> in_Bucket = o_Bucket opts,
                    in_Key = o_Key opts,
                    in_Body = o_Contents opts,
                    in_ContentLength = int (length (o_Contents opts)),
                    in_ContentType = ''application/json'',
                    in_ChecksumAlgorithm = ChecksumAlgorithmSha256,
                    in_ServerSideEncryption = None,
                    in_SSEKMSKeyId = None,
                    in_Tagging = None \<rparr>;
          input = (if o_KmsKeyId opts \<noteq> []
                   then input\<lparr> in_ServerSideEncryption := Some ServerSideEncryptionAwsKms,
                               in_SSEKMSKeyId := Some (o_KmsKeyId opts) \<rparr>
                   else input);
          input = (if length (o_Tags opts) > 0
                   then input\<lparr> in_Tagging := Some (newTags (o_Tags opts)) \<rparr>
                   else input)
      in input)"

text \<open>
  After \<^verbatim>\<open>validate\<close> has passed the options are not nil, so the \<open>None\<close> case below the
  check is never taken (lemma \<open>validate_None_HasError\<close>).
\<close>

definition putS3ObjectContents ::
  "s3_Client \<Rightarrow> putObjectOptions option \<Rightarrow> remote \<Rightarrow> Diagnostics \<times> remote" where
  "putS3ObjectContents client opt w =
     (let diag = Append [] (validate opt) in
      if HasError diag then (diag, w)
      else
        (case opt of
           None \<Rightarrow> (diag, w)
         | Some opts \<Rightarrow>
             (let input = newPutObjectInput opts
              in case client_PutObject client input w of
                   (Some err, w') \<Rightarrow>
                     (AddError diag ''s3 client'' (''failed s3 put object: '' @ Error err), w')
                 | (None, w') \<Rightarrow> (diag, w'))))"

definition deleteS3Object ::
  "s3_Client \<Rightarrow> string \<Rightarrow> string \<Rightarrow> remote \<Rightarrow> Diagnostics \<times> remote" where
  "deleteS3Object client bucket key w =
     (case client_DeleteObject client bucket key w of
        (Some err, w') \<Rightarrow>
          (AddError [] ''s3 client'' (''failed to delete s3 object: '' @ Error err), w')
      | (None, w') \<Rightarrow> ([], w'))"

section \<open>The resource and its lifecycle operations\<close>

record S3ObjectResource =
  softDelete :: bool
  tfeClient :: "tfe_Client option"
  s3Client :: "s3_Client option"

record S3ObjectResourceModel =
  Id :: tfString
  WorkspaceId :: tfString
  Bucket :: tfString
  Key :: tfString
  StateContentsSha256 :: tfString
  BucketContentsSha256 :: tfString
  KmsKeyId :: tfString
  IgnoreEmpty :: tfBool
  Ignored :: tfBool
  SoftDelete :: tfBool
  Tags :: tfMap

text \<open>
  What an operation hands back to the host: its diagnostics, and the record it passed to
  \<^verbatim>\<open>resp.State.Set\<close> (\<open>None\<close> when it returned without setting the state).
\<close>

record Response =
  resp_Diagnostics :: Diagnostics
  resp_State :: "S3ObjectResourceModel option"

text \<open>
  The host framework's conversions. \<^verbatim>\<open>req.Plan.Get\<close> and \<^verbatim>\<open>req.State.Get\<close> decode
  the request into the model struct, \<^verbatim>\<open>resp.State.Set\<close> encodes it back; the struct
  has one framework-typed field per schema attribute, so the conversions report nothing.
  \<^verbatim>\<open>Tags.ElementsAs\<close> with \<^verbatim>\<open>allowUnhandled = true\<close> turns a null or unknown map
  into the empty Go map and a null or unknown element into the empty string.
\<close>

definition Get :: "S3ObjectResourceModel \<Rightarrow> Diagnostics \<times> S3ObjectResourceModel" where
  "Get v = ([], v)"

definition State_Set :: "S3ObjectResourceModel \<Rightarrow> Diagnostics" where
  "State_Set v = []"

fun ElementsAs :: "tfMap \<Rightarrow> Diagnostics \<times> go_map" where
  "ElementsAs (MapValue elems) = ([], map (\<lambda>(k, v). (k, ValueString v)) elems)"
| "ElementsAs _ = ([], [])"

fun validateS3ObjectResource :: "S3ObjectResource option \<Rightarrow> Diagnostics" where
  "validateS3ObjectResource None = AddError [] ''provider'' ''nil receiver''"
| "validateS3ObjectResource (Some r) =
     (if s3Client r = None then AddError [] ''provider'' ''nil s3 client''
      else if tfeClient r = None then AddError [] ''provider'' ''nil tfe client''
      else [])"

definition newS3ObjectResourceID :: "S3ObjectResourceModel \<Rightarrow> tfString" where
  "newS3ObjectResourceID data =
     StringValue (ValueString (WorkspaceId data) @ ''/'' @ ValueString (Bucket data)
                    @ ''/'' @ ValueString (Key data))"

text \<open>
  In each operation the clients are dereferenced only after
  \<^verbatim>\<open>validateS3ObjectResource\<close> has passed, so both are present there; the last case of
  the match on the two clients is never taken (lemma \<open>validateS3ObjectResource_ok\<close>).
\<close>

definition Create ::
  "S3ObjectResource \<Rightarrow> S3ObjectResourceModel \<Rightarrow> remote \<Rightarrow> Response \<times> remote" where
  "Create r plan w =
     (let diags = Append [] (validateS3ObjectResource (Some r)) in
      if HasError diags then (\<lparr>resp_Diagnostics = diags, resp_State = None\<rparr>, w)
      else
        (case (tfeClient r, s3Client r) of
           (Some tfe, Some s3) \<Rightarrow>
             (let (d, data) = Get plan;
                  diags = Append diags d
              in if HasError diags then (\<lparr>resp_Diagnostics = diags, resp_State = None\<rparr>, w)
              else
                (let ((state, d, ignored), w) =
                       getStateFile tfe (ValueString (WorkspaceId data))
                         (ValueBool (IgnoreEmpty data)) w;
                     diags = Append diags d
                 in if HasError diags then (\<lparr>resp_Diagnostics = diags, resp_State = None\<rparr>, w)
                 else
                   (let data = data\<lparr>Id := newS3ObjectResourceID data\<rparr>;
                        data = data\<lparr>Ignored := BoolValue ignored\<rparr>
                    in if ignored then
                         (let data = data\<lparr>StateContentsSha256 := StringNull\<rparr>;
                              data = data\<lparr>BucketContentsSha256 := StringNull\<rparr>;
                              diags = Append diags (State_Set data)
                          in (\<lparr>resp_Diagnostics = diags, resp_State = Some data\<rparr>, w))
                       else
                         (let data = data\<lparr>StateContentsSha256 := sha256Contents state\<rparr>;
                              data = data\<lparr>BucketContentsSha256 := sha256Contents state\<rparr>;
                              opts = \<lparr> o_Bucket = ValueString (Bucket data),
                                       o_Key = ValueString (Key data),
                                       o_KmsKeyId = ValueString (KmsKeyId data),
                                       o_Contents = state,
                                       o_Tags = [] \<rparr>;
                              (d, w) = putS3ObjectContents s3 (Some opts) w;
                              diags = Append diags d
                          in if HasError diags
                             then (\<lparr>resp_Diagnostics = diags, resp_State = None\<rparr>, w)
                             else
                               (let diags = Append diags (State_Set data)
                                in (\<lparr>resp_Diagnostics = diags, resp_State = Some data\<rparr>, w))))))
         | _ \<Rightarrow> (\<lparr>resp_Diagnostics = diags, resp_State = None\<rparr>, w)))"

definition Read ::
  "S3ObjectResource \<Rightarrow> S3ObjectResourceModel \<Rightarrow> remote \<Rightarrow> Response \<times> remote" where
  "Read r st w =
     (let diags = Append [] (validateS3ObjectResource (Some r)) in
      if HasError diags then (\<lparr>resp_Diagnostics = diags, resp_State = None\<rparr>, w)
      else
        (case (tfeClient r, s3Client r) of
           (Some tfe, Some s3) \<Rightarrow>
             (let (d, data) = Get st;
                  diags = Append diags d
              in if HasError diags then (\<lparr>resp_Diagnostics = diags, resp_State = None\<rparr>, w)
              else
                (let ((state, d, ignored), w) =
                       getStateFile tfe (ValueString (WorkspaceId data))
                         (ValueBool (IgnoreEmpty data)) w;
                     diags = Append diags d
                 in if HasError diags then (\<lparr>resp_Diagnostics = diags, resp_State = None\<rparr>, w)
                 else
                   (let data = data\<lparr>Id := newS3ObjectResourceID data\<rparr>;
                        data = data\<lparr>Ignored := BoolValue ignored\<rparr>
                    in if ignored then
                         (let data = data\<lparr>StateContentsSha256 := StringNull\<rparr>;
                              data = data\<lparr>BucketContentsSha256 := StringNull\<rparr>;
                              diags = Append diags (State_Set data)
                          in (\<lparr>resp_Diagnostics = diags, resp_State = Some data\<rparr>, w))
                       else
                         (let data = data\<lparr>StateContentsSha256 := sha256Contents state\<rparr>;
                              ((contents, d), w) =
                                getS3ObjectContents s3 (ValueString (Bucket data))
                                  (ValueString (Key data)) w;
                              diags = Append diags d
                          in if HasError diags
                             then (\<lparr>resp_Diagnostics = diags, resp_State = None\<rparr>, w)
                             else
                               (let data = data\<lparr>BucketContentsSha256 := sha256Contents contents\<rparr>;
                                    diags = Append diags (State_Set data)
                                in (\<lparr>resp_Diagnostics = diags, resp_State = Some data\<rparr>, w))))))
         | _ \<Rightarrow> (\<lparr>resp_Diagnostics = diags, resp_State = None\<rparr>, w)))"

definition Update ::
  "S3ObjectResource \<Rightarrow> S3ObjectResourceModel \<Rightarrow> remote \<Rightarrow> Response \<times> remote" where
  "Update r req_plan w =
     (let diags = Append [] (validateS3ObjectResource (Some r)) in
      if HasError diags then (\<lparr>resp_Diagnostics = diags, resp_State = None\<rparr>, w)
      else
        (case (tfeClient r, s3Client r) of
           (Some tfe, Some s3) \<Rightarrow>
             (let (d, plan) = Get req_plan;
                  diags = Append diags d
              in if HasError diags then (\<lparr>resp_Diagnostics = diags, resp_State = None\<rparr>, w)
              else
                (let (d, tags) = ElementsAs (Tags plan);
                     diags = Append diags d
                 in if HasError diags then (\<lparr>resp_Diagnostics = diags, resp_State = None\<rparr>, w)
                 else
                   (let ((contents, d, ignored), w) =
                          getStateFile tfe (ValueString (WorkspaceId plan))
                            (ValueBool (IgnoreEmpty plan)) w;
                        diags = Append diags d
                    in if HasError diags
                       then (\<lparr>resp_Diagnostics = diags, resp_State = None\<rparr>, w)
                       else
                         (let plan = plan\<lparr>Ignored := BoolValue ignored\<rparr>
                          in if ignored then
                               (let plan = plan\<lparr>StateContentsSha256 := StringNull\<rparr>;
                                    plan = plan\<lparr>BucketContentsSha256 := StringNull\<rparr>;
                                    diags = Append diags (State_Set plan)
                                in (\<lparr>resp_Diagnostics = diags, resp_State = Some plan\<rparr>, w))
                             else
                               (let plan = plan\<lparr>StateContentsSha256 := sha256Contents contents\<rparr>;
                                    plan = plan\<lparr>BucketContentsSha256 := sha256Contents contents\<rparr>;
                                    opts = \<lparr> o_Bucket = ValueString (Bucket plan),
                                             o_Key = ValueString (Key plan),
                                             o_KmsKeyId = ValueString (KmsKeyId plan),
                                             o_Contents = contents,
                                             o_Tags = tags \<rparr>;
                                    (d, w) = putS3ObjectContents s3 (Some opts) w;
                                    diags = Append diags d
                                in if HasError diags
                                   then (\<lparr>resp_Diagnostics = diags, resp_State = None\<rparr>, w)
                                   else
                                     (let diags = Append diags (State_Set plan)
                                      in (\<lparr>resp_Diagnostics = diags,
                                            resp_State = Some plan\<rparr>, w)))))))
         | _ \<Rightarrow> (\<lparr>resp_Diagnostics = diags, resp_State = None\<rparr>, w)))"

definition Delete ::
  "S3ObjectResource \<Rightarrow> S3ObjectResourceModel \<Rightarrow> remote \<Rightarrow> Response \<times> remote" where
  "Delete r st w =
     (let diags = Append [] (validateS3ObjectResource (Some r)) in
      if HasError diags then (\<lparr>resp_Diagnostics = diags, resp_State = None\<rparr>, w)
      else
        (case (tfeClient r, s3Client r) of
           (Some tfe, Some s3) \<Rightarrow>
             (let (d, data) = Get st;
                  diags = Append diags d
              in if HasError diags then (\<lparr>resp_Diagnostics = diags, resp_State = None\<rparr>, w)
              else if softDelete r \<or> ValueBool (SoftDelete data) then
                (let diags = AddWarning diags ''using soft delete''
                               (''bucket: '' @ ValueString (Bucket data) @ '', key: ''
                                  @ ValueString (Key data))
                 in (\<lparr>resp_Diagnostics = diags, resp_State = None\<rparr>, w))
              else
                (let (d, w) = deleteS3Object s3 (ValueString (Bucket data))
                                (ValueString (Key data)) w;
                     diags = Append diags d
                 in (\<lparr>resp_Diagnostics = diags, resp_State = None\<rparr>, w)))
         | _ \<Rightarrow> (\<lparr>resp_Diagnostics = diags, resp_State = None\<rparr>, w)))"

section \<open>Observations used in the statements\<close>

text \<open>
  What the state source does for a workspace: the resolve step fails with the not-found
  error; some step of the fetch fails; or the fetch returns the bytes \<open>S\<close> (from the
  download URL \<open>source_url\<close>).
\<close>

definition resolve_not_found :: "tfe_Client \<Rightarrow> string \<Rightarrow> bool" where
  "resolve_not_found client workspaceId =
     (case ReadCurrent client workspaceId of
        Inl err \<Rightarrow> errors_Is err ErrResourceNotFound
      | Inr ver \<Rightarrow> False)"

definition fetch_fails :: "tfe_Client \<Rightarrow> string \<Rightarrow> bool" where
  "fetch_fails client workspaceId =
     (case ReadCurrent client workspaceId of
        Inl err \<Rightarrow> True
      | Inr ver \<Rightarrow>
          (case Download client (DownloadURL ver) of Inl err \<Rightarrow> True | Inr state \<Rightarrow> False))"

definition source_returns :: "tfe_Client \<Rightarrow> string \<Rightarrow> bytes \<Rightarrow> bool" where
  "source_returns client workspaceId S =
     (case ReadCurrent client workspaceId of
        Inl err \<Rightarrow> False
      | Inr ver \<Rightarrow> Download client (DownloadURL ver) = Inr S)"

definition source_url :: "tfe_Client \<Rightarrow> string \<Rightarrow> string" where
  "source_url client workspaceId =
     (case ReadCurrent client workspaceId of
        Inl err \<Rightarrow> []
      | Inr ver \<Rightarrow> DownloadURL ver)"


text \<open>The requests to the object store, and the calls to the state source, in a trace.\<close>

fun s3_requests :: "call list \<Rightarrow> s3_request list" where
  "s3_requests [] = []"
| "s3_requests (S3Call q # cs) = q # s3_requests cs"
| "s3_requests (c # cs) = s3_requests cs"

fun tfe_calls :: "call list \<Rightarrow> call list" where
  "tfe_calls [] = []"
| "tfe_calls (S3Call q # cs) = tfe_calls cs"
| "tfe_calls (c # cs) = c # tfe_calls cs"

text \<open>The options \<^verbatim>\<open>Create\<close> and \<^verbatim>\<open>Update\<close> build for the write of the bytes \<open>S\<close>.\<close>

definition create_options :: "S3ObjectResourceModel \<Rightarrow> bytes \<Rightarrow> putObjectOptions" where
  "create_options plan S =
     \<lparr> o_Bucket = ValueString (Bucket plan), o_Key = ValueString (Key plan),
       o_KmsKeyId = ValueString (KmsKeyId plan), o_Contents = S, o_Tags = [] \<rparr>"

definition update_options :: "S3ObjectResourceModel \<Rightarrow> bytes \<Rightarrow> putObjectOptions" where
  "update_options plan S =
     \<lparr> o_Bucket = ValueString (Bucket plan), o_Key = ValueString (Key plan),
       o_KmsKeyId = ValueString (KmsKeyId plan), o_Contents = S,
       o_Tags = snd (ElementsAs (Tags plan)) \<rparr>"

subsection \<open>Example inputs\<close>

text \<open>
  A state source that holds the two bytes \<^verbatim>\<open>{}\<close> for every workspace, one with no
  current state version, one whose download step fails with the not-found error, and
  one whose current state version is empty; an
  object store that accepts every request and holds \<^verbatim>\<open>[]\<close> at
  \<^verbatim>\<open>backups/state.json\<close>.
\<close>

definition ex_state :: bytes where
  "ex_state = [0x7B, 0x7D]"

definition ex_tfe :: tfe_Client where
  "ex_tfe = \<lparr> ReadCurrent = (\<lambda>ws. Inr \<lparr>DownloadURL = ''https://archivist/'' @ ws\<rparr>),
              Download = (\<lambda>url. Inr ex_state) \<rparr>"

definition ex_tfe_empty :: tfe_Client where
  "ex_tfe_empty = \<lparr> ReadCurrent = (\<lambda>ws. Inl ErrResourceNotFound),
                    Download = (\<lambda>url. Inl (ErrorString ''no such url'')) \<rparr>"

definition ex_tfe_download_404 :: tfe_Client where
  "ex_tfe_download_404 =
     \<lparr> ReadCurrent = (\<lambda>ws. Inr \<lparr>DownloadURL = ''https://archivist/'' @ ws\<rparr>),
       Download = (\<lambda>url. Inl ErrResourceNotFound) \<rparr>"

definition ex_s3 :: s3_Client where
  "ex_s3 = \<lparr> s3_fault = (\<lambda>q. None), body_fault = (\<lambda>p. None) \<rparr>"

definition ex_stored :: bytes where
  "ex_stored = [0x5B, 0x5D]"

definition ex_remote :: remote where
  "ex_remote = \<lparr> objects = (\<lambda>p. if p = (''backups'', ''state.json'') then Some ex_stored else None),
                 trace = [] \<rparr>"

definition ex_resource :: S3ObjectResource where
  "ex_resource = \<lparr> softDelete = False, tfeClient = Some ex_tfe, s3Client = Some ex_s3 \<rparr>"

definition ex_resource_empty :: S3ObjectResource where
  "ex_resource_empty =
     \<lparr> softDelete = False, tfeClient = Some ex_tfe_empty, s3Client = Some ex_s3 \<rparr>"

definition ex_tfe_blank :: tfe_Client where
  "ex_tfe_blank = \<lparr> ReadCurrent = (\<lambda>ws. Inr \<lparr>DownloadURL = ''https://archivist/'' @ ws\<rparr>),
                    Download = (\<lambda>url. Inr []) \<rparr>"

definition ex_resource_blank :: S3ObjectResource where
  "ex_resource_blank =
     \<lparr> softDelete = False, tfeClient = Some ex_tfe_blank, s3Client = Some ex_s3 \<rparr>"

definition ex_plan :: S3ObjectResourceModel where
  "ex_plan = \<lparr> Id = StringUnknown,
               WorkspaceId = StringValue ''ws-1'',
               Bucket = StringValue ''backups'',
               Key = StringValue ''state.json'',
               StateContentsSha256 = StringUnknown,
               BucketContentsSha256 = StringUnknown,
               KmsKeyId = StringNull,
               IgnoreEmpty = BoolValue True,
               Ignored = BoolUnknown,
               SoftDelete = BoolNull,
               Tags = MapValue [(''MyTag'', StringValue ''MyValue'')] \<rparr>"

text \<open>
  A planned record whose id was computed while the object lived in another bucket, a
  record with the soft-delete flag, a record with an empty bucket, a resource that holds
  no client, a resource with the provider-wide soft-delete default, the options of a
  write of the example state, and a remote world whose stored object equals the example
  state.
\<close>

definition ex_plan_moved :: S3ObjectResourceModel where
  "ex_plan_moved = ex_plan\<lparr>Id := StringValue ''ws-1/old-bucket/state.json''\<rparr>"

definition ex_plan_soft :: S3ObjectResourceModel where
  "ex_plan_soft = ex_plan\<lparr>SoftDelete := BoolValue True\<rparr>"

definition ex_resource_unconfigured :: S3ObjectResource where
  "ex_resource_unconfigured = \<lparr> softDelete = False, tfeClient = None, s3Client = None \<rparr>"

definition ex_resource_soft :: S3ObjectResource where
  "ex_resource_soft = ex_resource\<lparr>softDelete := True\<rparr>"

definition ex_options :: putObjectOptions where
  "ex_options = create_options ex_plan ex_state"

definition ex_plan_no_bucket :: S3ObjectResourceModel where
  "ex_plan_no_bucket = ex_plan\<lparr>Bucket := StringValue []\<rparr>"


section \<open>Properties of the diagnostics and of the state fetch\<close>

lemma AddError_Nil: "AddError [] s d = [Diagnostic SeverityError s d]"
  by (simp add: AddError_def)

lemma HasError_iff: "HasError ds \<longleftrightarrow> (\<exists>d \<in> set ds. severity d = SeverityError)"
  by (induction ds) auto

lemma set_Append: "set (Append ds es) = set ds \<union> set es"
  by (induction es arbitrary: ds) auto

lemma HasError_Append: "HasError (Append ds es) \<longleftrightarrow> HasError ds \<or> HasError es"
  by (auto simp: HasError_iff set_Append)

lemma HasError_AddError: "HasError (AddError ds s d)"
  unfolding AddError_def HasError_Append by simp

text \<open>Facts about the example inputs.\<close>

lemma ex_configured:
  "tfeClient ex_resource = Some ex_tfe" "s3Client ex_resource = Some ex_s3"
  "tfeClient ex_resource_empty = Some ex_tfe_empty" "s3Client ex_resource_empty = Some ex_s3"
  by (simp_all add: ex_resource_def ex_resource_empty_def)

lemma ex_plan_fields:
  "ValueString (WorkspaceId ex_plan) = ''ws-1''" "ValueString (Bucket ex_plan) = ''backups''"
  "ValueString (Key ex_plan) = ''state.json''" "ValueBool (IgnoreEmpty ex_plan)"
  "ValueString (KmsKeyId ex_plan) = []" "\<not> ValueBool (SoftDelete ex_plan)"
  by (simp_all add: ex_plan_def)

lemma ex_source_returns: "source_returns ex_tfe ws ex_state"
  by (simp add: source_returns_def ex_tfe_def)

lemma ex_state_not_empty: "ex_state \<noteq> []"
  by (simp add: ex_state_def)

text \<open>
  Claim C8. A fetch of the current remote state is ignored exactly when the caller passed
  \<open>ignoreEmpty\<close> and the resolve step failed with the not-found error; an ignored fetch
  carries no error. Every other failure of the fetch (of the resolve step with another
  error, of the resolve step with \<open>ignoreEmpty\<close> false, of the download step with any
  error, the not-found error included) yields an error diagnostic and is not ignored.
  A fetch that does not fail yields neither.
\<close>

theorem getStateFile_ignored_iff:
  "getStateFile client workspaceId ignoreEmpty w = ((state, diag, ignored), w') \<Longrightarrow>
     (ignored \<longleftrightarrow> ignoreEmpty \<and> resolve_not_found client workspaceId) \<and>
     (ignored \<longrightarrow> \<not> HasError diag) \<and>
     (fetch_fails client workspaceId \<and> \<not> (ignoreEmpty \<and> resolve_not_found client workspaceId)
        \<longrightarrow> HasError diag \<and> \<not> ignored) \<and>
     (\<not> fetch_fails client workspaceId \<longrightarrow> \<not> HasError diag \<and> \<not> ignored)"
  by (auto simp: getStateFile_def StateVersions_ReadCurrent_def StateVersions_Download_def
        resolve_not_found_def fetch_fails_def HasError_AddError
      split: sum.splits if_splits)

theorem getStateFile_ignored_iff_witness:
  "snd (snd (fst (getStateFile ex_tfe_empty ''ws-1'' True ex_remote))) \<and>
   \<not> snd (snd (fst (getStateFile ex_tfe_empty ''ws-1'' False ex_remote))) \<and>
   HasError (fst (snd (fst (getStateFile ex_tfe_empty ''ws-1'' False ex_remote)))) \<and>
   fetch_fails ex_tfe_download_404 ''ws-1'' \<and>
   \<not> snd (snd (fst (getStateFile ex_tfe_download_404 ''ws-1'' True ex_remote))) \<and>
   HasError (fst (snd (fst (getStateFile ex_tfe_download_404 ''ws-1'' True ex_remote)))) \<and>
   \<not> snd (snd (fst (getStateFile ex_tfe ''ws-1'' True ex_remote))) \<and>
   \<not> HasError (fst (snd (fst (getStateFile ex_tfe ''ws-1'' True ex_remote))))"
proof -
  have a: "resolve_not_found ex_tfe_empty ''ws-1''"
    by (simp add: resolve_not_found_def ex_tfe_empty_def)
  have b: "fetch_fails ex_tfe_empty ''ws-1''"
    by (simp add: fetch_fails_def ex_tfe_empty_def)
  have c: "fetch_fails ex_tfe_download_404 ''ws-1''"
    by (simp add: fetch_fails_def ex_tfe_download_404_def)
  have d: "\<not> resolve_not_found ex_tfe_download_404 ''ws-1''"
    by (simp add: resolve_not_found_def ex_tfe_download_404_def)
  have f: "\<not> fetch_fails ex_tfe ''ws-1''"
    by (simp add: fetch_fails_def ex_tfe_def)
  have e: "x = ((fst (fst x), fst (snd (fst x)), snd (snd (fst x))), snd x)"
    for x :: "(bytes \<times> Diagnostics \<times> bool) \<times> remote"
    by simp
  show ?thesis
    using a b c d f
      getStateFile_ignored_iff [OF e, of ex_tfe_empty "''ws-1''" True ex_remote]
      getStateFile_ignored_iff [OF e, of ex_tfe_empty "''ws-1''" False ex_remote]
      getStateFile_ignored_iff [OF e, of ex_tfe_download_404 "''ws-1''" True ex_remote]
      getStateFile_ignored_iff [OF e, of ex_tfe "''ws-1''" True ex_remote]
    by auto
qed

lemma s3_requests_append: "s3_requests (xs @ ys) = s3_requests xs @ s3_requests ys"
  by (induction xs rule: s3_requests.induct) auto

lemma tfe_calls_append: "tfe_calls (xs @ ys) = tfe_calls xs @ tfe_calls ys"
  by (induction xs rule: tfe_calls.induct) auto

lemma getStateFile_not_found:
  "resolve_not_found client ws \<Longrightarrow>
   getStateFile client ws True w = (([], [], True), w\<lparr>trace := trace w @ [ReadCurrentCall ws]\<rparr>)"
  by (auto simp: getStateFile_def StateVersions_ReadCurrent_def resolve_not_found_def
      split: sum.splits)

lemma getStateFile_returns:
  "source_returns client ws S \<Longrightarrow>
   getStateFile client ws ie w =
     ((S, [], False),
      w\<lparr>trace := trace w @ [ReadCurrentCall ws, DownloadCall (source_url client ws)]\<rparr>)"
  by (auto simp: getStateFile_def StateVersions_ReadCurrent_def StateVersions_Download_def
        source_returns_def source_url_def
      split: sum.splits)

section \<open>The digest function: known answers and the encoding\<close>

text \<open>The digest of the three bytes \<^verbatim>\<open>abc\<close> is the value FIPS 180-4 gives for it.\<close>

lemma sha256_abc:
  "hex_EncodeToString (sha256_Sum256 [0x61, 0x62, 0x63]) =
     ''ba7816bf8f01cfea414140de5dae2223b00361a396177a9cb410ff61f20015ad''"
  by code_simp









section \<open>Properties of the object-store adapter\<close>

lemma validate_None_HasError: "HasError (Append [] (validate None))"
  by (simp add: AddError_Nil)

lemma putS3ObjectContents_nil:
  "HasError (fst (putS3ObjectContents client None w)) \<and>
   snd (putS3ObjectContents client None w) = w"
  using validate_None_HasError by (simp add: putS3ObjectContents_def Let_def)

lemma validate_HasError:
  "HasError (validate (Some opts)) \<longleftrightarrow>
     o_Bucket opts = [] \<or> o_Key opts = [] \<or> o_Contents opts = []"
  by (simp add: Let_def HasError_AddError)

lemma validate_ok:
  "o_Bucket opts \<noteq> [] \<Longrightarrow> o_Key opts \<noteq> [] \<Longrightarrow> o_Contents opts \<noteq> [] \<Longrightarrow>
   validate (Some opts) = []"
  by (simp add: Let_def)

lemma putS3ObjectContents_rejected:
  "o_Bucket opts = [] \<or> o_Key opts = [] \<or> o_Contents opts = [] \<Longrightarrow>
   HasError (fst (putS3ObjectContents client (Some opts) w)) \<and>
   snd (putS3ObjectContents client (Some opts) w) = w"
  using validate_HasError [of opts]
  by (simp add: putS3ObjectContents_def HasError_Append Let_def del: validate.simps)

lemma putS3ObjectContents_issued:
  assumes "o_Bucket opts \<noteq> []" "o_Key opts \<noteq> []" "o_Contents opts \<noteq> []"
  shows "putS3ObjectContents client (Some opts) w =
     (case s3_fault client (PutObject (newPutObjectInput opts)) of
        Some err \<Rightarrow>
          ([Diagnostic SeverityError ''s3 client'' (''failed s3 put object: '' @ Error err)],
           w\<lparr>trace := trace w @ [S3Call (PutObject (newPutObjectInput opts))]\<rparr>)
      | None \<Rightarrow>
          ([], w\<lparr>trace := trace w @ [S3Call (PutObject (newPutObjectInput opts))],
                 objects := (objects w)((o_Bucket opts, o_Key opts) \<mapsto> o_Contents opts)\<rparr>))"
  using assms validate_ok [of opts]
  by (simp add: putS3ObjectContents_def client_PutObject_def AddError_Nil Let_def
        newPutObjectInput_def del: validate.simps split: option.splits)

lemma put_requests:
  "s3_requests (trace (snd (putS3ObjectContents client (Some opts) w))) =
     s3_requests (trace w) @
       (if o_Bucket opts = [] \<or> o_Key opts = [] \<or> o_Contents opts = [] then []
        else [PutObject (newPutObjectInput opts)])"
proof (cases "o_Bucket opts = [] \<or> o_Key opts = [] \<or> o_Contents opts = []")
  case True
  then show ?thesis using putS3ObjectContents_rejected [of opts client w] by simp
next
  case False
  then show ?thesis
    by (simp add: putS3ObjectContents_issued s3_requests_append split: option.splits)
qed

lemma put_accepted:
  "\<not> HasError (fst (putS3ObjectContents client (Some opts) w)) \<longleftrightarrow>
     o_Bucket opts \<noteq> [] \<and> o_Key opts \<noteq> [] \<and> o_Contents opts \<noteq> [] \<and>
     s3_fault client (PutObject (newPutObjectInput opts)) = None"
proof (cases "o_Bucket opts = [] \<or> o_Key opts = [] \<or> o_Contents opts = []")
  case True
  then show ?thesis using putS3ObjectContents_rejected [of opts client w] by auto
next
  case False
  then show ?thesis
    by (auto simp: putS3ObjectContents_issued split: option.splits)
qed

lemma in_Body_newPutObjectInput: "in_Body (newPutObjectInput opts) = o_Contents opts"
  by (simp add: newPutObjectInput_def Let_def)



lemma deleteS3Object_eq:
  "deleteS3Object client bucket key w =
     (case s3_fault client (DeleteObject bucket key) of
        Some err \<Rightarrow>
          ([Diagnostic SeverityError ''s3 client'' (''failed to delete s3 object: '' @ Error err)],
           w\<lparr>trace := trace w @ [S3Call (DeleteObject bucket key)]\<rparr>)
      | None \<Rightarrow>
          ([], w\<lparr>trace := trace w @ [S3Call (DeleteObject bucket key)],
                 objects := (objects w)((bucket, key) := None)\<rparr>))"
  by (simp add: deleteS3Object_def client_DeleteObject_def Let_def AddError_Nil
      split: option.splits)

lemma deleteS3Object_trace:
  "trace (snd (deleteS3Object client bucket key w)) =
     trace w @ [S3Call (DeleteObject bucket key)]"
  by (simp add: deleteS3Object_eq split: option.splits)

lemma deleteS3Object_objects:
  "objects (snd (deleteS3Object client bucket key w)) = objects w \<or>
   objects (snd (deleteS3Object client bucket key w)) = (objects w)((bucket, key) := None)"
  by (simp add: deleteS3Object_eq split: option.splits)

lemma deleteS3Object_no_warning:
  "Warnings (Append [] (fst (deleteS3Object client bucket key w))) = []"
  by (simp add: deleteS3Object_eq Warnings_def split: option.splits)

text \<open>
  Claim C7. A write whose contents are empty, or whose bucket or key is the empty string,
  returns an error diagnostic and leaves the remote world as it was, its trace included:
  no request is made. A request is added to the trace only when contents, bucket and key
  are all non-empty, and then it is the one put request built from the options.
\<close>

theorem putS3ObjectContents_precondition:
  "(o_Contents opts = [] \<or> o_Bucket opts = [] \<or> o_Key opts = [] \<longrightarrow>
      HasError (fst (putS3ObjectContents client (Some opts) w)) \<and>
      snd (putS3ObjectContents client (Some opts) w) = w) \<and>
   (trace (snd (putS3ObjectContents client (Some opts) w)) \<noteq> trace w \<longrightarrow>
      o_Contents opts \<noteq> [] \<and> o_Bucket opts \<noteq> [] \<and> o_Key opts \<noteq> []) \<and>
   (o_Contents opts \<noteq> [] \<and> o_Bucket opts \<noteq> [] \<and> o_Key opts \<noteq> [] \<longrightarrow>
      trace (snd (putS3ObjectContents client (Some opts) w)) =
        trace w @ [S3Call (PutObject (newPutObjectInput opts))])"
proof (cases "o_Bucket opts = [] \<or> o_Key opts = [] \<or> o_Contents opts = []")
  case True
  then show ?thesis
    using putS3ObjectContents_rejected [OF True, of client w] by auto
next
  case False
  then show ?thesis
    by (simp add: putS3ObjectContents_issued split: option.splits)
qed

theorem putS3ObjectContents_precondition_witness:
  "HasError (fst (putS3ObjectContents ex_s3 (Some (ex_options\<lparr>o_Contents := []\<rparr>)) ex_remote)) \<and>
   snd (putS3ObjectContents ex_s3 (Some (ex_options\<lparr>o_Contents := []\<rparr>)) ex_remote) = ex_remote \<and>
   HasError (fst (putS3ObjectContents ex_s3 (Some (ex_options\<lparr>o_Bucket := []\<rparr>)) ex_remote)) \<and>
   snd (putS3ObjectContents ex_s3 (Some (ex_options\<lparr>o_Bucket := []\<rparr>)) ex_remote) = ex_remote \<and>
   HasError (fst (putS3ObjectContents ex_s3 (Some (ex_options\<lparr>o_Key := []\<rparr>)) ex_remote)) \<and>
   snd (putS3ObjectContents ex_s3 (Some (ex_options\<lparr>o_Key := []\<rparr>)) ex_remote) = ex_remote \<and>
   trace (snd (putS3ObjectContents ex_s3 (Some ex_options) ex_remote)) =
     [S3Call (PutObject (newPutObjectInput ex_options))]"
proof -
  have o: "o_Contents ex_options \<noteq> []" "o_Bucket ex_options \<noteq> []" "o_Key ex_options \<noteq> []"
    by (simp_all add: ex_options_def create_options_def ex_plan_fields ex_state_def)
  have e: "trace ex_remote = []"
    by (simp add: ex_remote_def)
  show ?thesis
    using putS3ObjectContents_precondition [of "ex_options\<lparr>o_Contents := []\<rparr>" ex_s3 ex_remote]
      putS3ObjectContents_precondition [of "ex_options\<lparr>o_Bucket := []\<rparr>" ex_s3 ex_remote]
      putS3ObjectContents_precondition [of "ex_options\<lparr>o_Key := []\<rparr>" ex_s3 ex_remote]
      putS3ObjectContents_precondition [of ex_options ex_s3 ex_remote] o e
    by simp
qed

section \<open>Properties of the tag serialization\<close>

lemma upperhex_table:
  "list_all (\<lambda>k. ishex (upperhex ! k) \<and> unhex (upperhex ! k) = k \<and>
                  upperhex ! k \<noteq> CHR ''&'' \<and> upperhex ! k \<noteq> CHR ''='') [0..<16]"
  by code_simp

lemma upperhex_digit:
  "k < 16 \<Longrightarrow> ishex (upperhex ! k) \<and> unhex (upperhex ! k) = k \<and>
     upperhex ! k \<noteq> CHR ''&'' \<and> upperhex ! k \<noteq> CHR ''=''"
  using upperhex_table by (simp add: list_all_iff)

lemma of_char_split: "(of_char c :: nat) div 16 < 16 \<and> (of_char c :: nat) mod 16 < 16"
proof -
  have "(of_char c :: nat) < 256" by simp
  then show ?thesis by arith
qed

lemma shouldEscape_marks:
  "shouldEscape CHR ''%''" "shouldEscape CHR ''+''" "shouldEscape CHR ''&''"
  "shouldEscape CHR ''=''"
  by (simp_all add: shouldEscape_def)

lemma QueryUnescape_escape_byte:
  "QueryUnescape (escape_byte c @ t) = map_option (Cons c) (QueryUnescape t)"
proof (cases "c = CHR '' ''")
  case True
  then show ?thesis by (simp add: escape_byte_def)
next
  case False
  show ?thesis
  proof (cases "shouldEscape c")
    case True
    with False show ?thesis
      using upperhex_digit [of "(of_char c :: nat) div 16"]
        upperhex_digit [of "(of_char c :: nat) mod 16"] of_char_split [of c]
      by (simp add: escape_byte_def)
  next
    case no: False
    then have "c \<noteq> CHR ''%''" "c \<noteq> CHR ''+''"
      using shouldEscape_marks by auto
    with False no show ?thesis by (simp add: escape_byte_def)
  qed
qed

lemma QueryUnescape_QueryEscape: "QueryUnescape (QueryEscape s) = Some s"
proof (induction s)
  case Nil
  then show ?case by (simp add: QueryEscape_def)
next
  case (Cons c s)
  have "QueryEscape (c # s) = escape_byte c @ QueryEscape s"
    by (simp add: QueryEscape_def)
  with Cons show ?case
    by (simp add: QueryUnescape_escape_byte)
qed

lemma escape_byte_no_separator:
  "CHR ''&'' \<notin> set (escape_byte c) \<and> CHR ''='' \<notin> set (escape_byte c)"
proof (cases "shouldEscape c")
  case True
  then show ?thesis
    using upperhex_digit [of "(of_char c :: nat) div 16"]
      upperhex_digit [of "(of_char c :: nat) mod 16"] of_char_split [of c]
    by (auto simp: escape_byte_def)
next
  case False
  then have "c \<noteq> CHR ''&''" "c \<noteq> CHR ''=''"
    using shouldEscape_marks by auto
  with False show ?thesis
    by (auto simp: escape_byte_def)
qed

lemma QueryEscape_no_separator:
  "CHR ''&'' \<notin> set (QueryEscape s) \<and> CHR ''='' \<notin> set (QueryEscape s)"
  using escape_byte_no_separator by (induction s) (auto simp: QueryEscape_def)

lemma split_on_absent: "sep \<notin> set p \<Longrightarrow> split_on sep p = [p]"
  by (induction p) auto

lemma split_on_first: "sep \<notin> set p \<Longrightarrow> split_on sep (p @ sep # rest) = p # split_on sep rest"
  by (induction p) auto

lemma tagPairs_loop_map:
  "tagPairs_loop tags acc = acc @ map (\<lambda>(k, v). QueryEscape k @ CHR ''='' # QueryEscape v) tags"
  by (induction tags arbitrary: acc) auto

lemma split_on_Join:
  "ps \<noteq> [] \<Longrightarrow> \<forall>p \<in> set ps. sep \<notin> set p \<Longrightarrow> split_on sep (strings_Join ps [sep]) = ps"
proof (induction ps "[sep]" rule: strings_Join.induct)
  case 1
  then show ?case by simp
next
  case (2 x)
  then show ?case by (simp add: split_on_absent)
next
  case (3 x y ys)
  then show ?case by (simp add: split_on_first)
qed

lemma parsePair_pair:
  "parsePair (QueryEscape k @ CHR ''='' # QueryEscape v) = Some (k, v)"
  using QueryEscape_no_separator [of k] QueryEscape_no_separator [of v]
  by (simp add: parsePair_def split_on_first split_on_absent QueryUnescape_QueryEscape)

lemma parsePairs_pairs:
  "parsePairs (map (\<lambda>(k, v). QueryEscape k @ CHR ''='' # QueryEscape v) tags) = Some tags"
  by (induction tags) (auto simp: parsePair_pair)

lemma newTags_example: "newTags [(''MyTag'', ''MyValue'')] = ''MyTag=MyValue''"
  by (simp add: newTags_def QueryEscape_def escape_byte_def shouldEscape_def)

text \<open>
  Claim C9. For every non-empty map, whatever the order in which its entries are visited,
  the tag string is the URL-escaped \<^verbatim>\<open>key=value\<close> pairs joined by \<^verbatim>\<open>&\<close>; splitting it
  at \<^verbatim>\<open>&\<close> gives one piece per entry, and splitting each piece at \<^verbatim>\<open>=\<close> and
  unescaping both parts gives back the entries, hence the map.
\<close>

theorem newTags_round_trip:
  "tags \<noteq> [] \<Longrightarrow>
     newTags tags =
       strings_Join (map (\<lambda>(k, v). QueryEscape k @ ''='' @ QueryEscape v) tags) ''&'' \<and>
     parseTags (newTags tags) = Some tags \<and>
     map_option map_of (parseTags (newTags tags)) = Some (map_of tags) \<and>
     length (split_on CHR ''&'' (newTags tags)) = length tags"
proof -
  assume ne: "tags \<noteq> []"
  let ?ps = "map (\<lambda>(k, v). QueryEscape k @ CHR ''='' # QueryEscape v) tags"
  have "\<forall>p \<in> set ?ps. CHR ''&'' \<notin> set p"
    using QueryEscape_no_separator by auto
  with ne have "split_on CHR ''&'' (strings_Join ?ps ''&'') = ?ps"
    using split_on_Join [of ?ps "CHR ''&''"] by simp
  then show ?thesis
    by (simp add: parseTags_def newTags_def tagPairs_loop_map parsePairs_pairs)
qed

theorem newTags_round_trip_witness:
  "newTags [(''a'', ''1''), (''b'', ''x y'')] = ''a=1&b=x+y'' \<and>
   parseTags ''a=1&b=x+y'' = Some [(''a'', ''1''), (''b'', ''x y'')] \<and>
   length (split_on CHR ''&'' ''a=1&b=x+y'') = 2"
proof -
  have n: "newTags [(''a'', ''1''), (''b'', ''x y'')] = ''a=1&b=x+y''"
    by (simp add: newTags_def QueryEscape_def escape_byte_def shouldEscape_def)
  have t: "[(''a'', ''1''), (''b'', ''x y'')] \<noteq> []"
    by simp
  have "parseTags (newTags [(''a'', ''1''), (''b'', ''x y'')])
          = Some [(''a'', ''1''), (''b'', ''x y'')]"
    and "length (split_on CHR ''&'' (newTags [(''a'', ''1''), (''b'', ''x y'')]))
          = length [(''a'', ''1''), (''b'', ''x y'')]"
    using newTags_round_trip [OF t] by blast+
  then show ?thesis
    unfolding n by (simp add: n)
qed

text \<open>The empty map is serialized to the empty string, which does not read back.\<close>

lemma newTags_empty: "newTags [] = [] \<and> parseTags (newTags []) = None"
  by (simp add: newTags_def parseTags_def parsePair_def)

section \<open>Properties of the lifecycle operations\<close>

text \<open>
  An operation goes past its first check exactly when both clients are present, so the
  clients are never dereferenced when nil.
\<close>

lemma validateS3ObjectResource_ok:
  "HasError (validateS3ObjectResource (Some r)) \<longleftrightarrow> tfeClient r = None \<or> s3Client r = None"
  by (auto simp: AddError_Nil)

lemma validate_configured:
  "tfeClient r = Some tfe \<Longrightarrow> s3Client r = Some s3 \<Longrightarrow> validateS3ObjectResource (Some r) = []"
  by simp

lemma ElementsAs_no_diags: "fst (ElementsAs m) = []"
  by (cases m) auto

lemma Create_ignored:
  assumes "tfeClient r = Some tfe" "s3Client r = Some s3"
    and "resolve_not_found tfe (ValueString (WorkspaceId plan))"
    and "ValueBool (IgnoreEmpty plan)"
  shows "Create r plan w =
     (\<lparr>resp_Diagnostics = [],
       resp_State = Some (plan\<lparr>Id := newS3ObjectResourceID plan, Ignored := BoolValue True,
                               StateContentsSha256 := StringNull,
                               BucketContentsSha256 := StringNull\<rparr>)\<rparr>,
      w\<lparr>trace := trace w @ [ReadCurrentCall (ValueString (WorkspaceId plan))]\<rparr>)"
  using assms
  by (simp add: Create_def Get_def State_Set_def getStateFile_not_found newS3ObjectResourceID_def)

lemma Update_ignored:
  assumes "tfeClient r = Some tfe" "s3Client r = Some s3"
    and "resolve_not_found tfe (ValueString (WorkspaceId plan))"
    and "ValueBool (IgnoreEmpty plan)"
  shows "Update r plan w =
     (\<lparr>resp_Diagnostics = [],
       resp_State = Some (plan\<lparr>Ignored := BoolValue True,
                               StateContentsSha256 := StringNull,
                               BucketContentsSha256 := StringNull\<rparr>)\<rparr>,
      w\<lparr>trace := trace w @ [ReadCurrentCall (ValueString (WorkspaceId plan))]\<rparr>)"
proof -
  obtain tags where "ElementsAs (Tags plan) = ([], tags)"
    using ElementsAs_no_diags [of "Tags plan"] by (cases "ElementsAs (Tags plan)") auto
  with assms show ?thesis
    by (simp add: Update_def Get_def State_Set_def getStateFile_not_found)
qed

lemma Create_fetched:
  assumes "tfeClient r = Some tfe" "s3Client r = Some s3"
    and "source_returns tfe (ValueString (WorkspaceId plan)) S"
    and "putS3ObjectContents s3 (Some (create_options plan S))
             (w\<lparr>trace := trace w @ [ReadCurrentCall (ValueString (WorkspaceId plan)),
                     DownloadCall (source_url tfe (ValueString (WorkspaceId plan)))]\<rparr>) = p"
  shows "Create r plan w =
     (\<lparr>resp_Diagnostics = Append [] (fst p),
       resp_State =
         (if HasError (fst p) then None
          else Some (plan\<lparr>Id := newS3ObjectResourceID plan,
                          Ignored := BoolValue False,
                          StateContentsSha256 := sha256Contents S,
                          BucketContentsSha256 := sha256Contents S\<rparr>))\<rparr>, snd p)"
  using assms
  by (cases p)
     (simp add: Create_def Get_def State_Set_def getStateFile_returns newS3ObjectResourceID_def
        create_options_def HasError_Append split: prod.splits)

lemma Update_fetched:
  assumes "tfeClient r = Some tfe" "s3Client r = Some s3"
    and "source_returns tfe (ValueString (WorkspaceId plan)) S"
    and "putS3ObjectContents s3 (Some (update_options plan S))
             (w\<lparr>trace := trace w @ [ReadCurrentCall (ValueString (WorkspaceId plan)),
                     DownloadCall (source_url tfe (ValueString (WorkspaceId plan)))]\<rparr>) = p"
  shows "Update r plan w =
     (\<lparr>resp_Diagnostics = Append [] (fst p),
       resp_State =
         (if HasError (fst p) then None
          else Some (plan\<lparr>Ignored := BoolValue False,
                          StateContentsSha256 := sha256Contents S,
                          BucketContentsSha256 := sha256Contents S\<rparr>))\<rparr>, snd p)"
proof -
  obtain tags where "ElementsAs (Tags plan) = ([], tags)"
    using ElementsAs_no_diags [of "Tags plan"] by (cases "ElementsAs (Tags plan)") auto
  with assms show ?thesis
    by (cases p)
       (simp add: Update_def Get_def State_Set_def getStateFile_returns
          update_options_def HasError_Append split: prod.splits)
qed


lemma Warnings_AddWarning_Nil: "Warnings (AddWarning [] s d) = [Diagnostic SeverityWarning s d]"
  by (simp add: Warnings_def AddWarning_def)

lemma Delete_soft:
  assumes "tfeClient r = Some tfe" "s3Client r = Some s3"
    and "softDelete r \<or> ValueBool (SoftDelete st)"
  shows "Delete r st w =
     (\<lparr>resp_Diagnostics =
         [Diagnostic SeverityWarning ''using soft delete''
            (''bucket: '' @ ValueString (Bucket st) @ '', key: '' @ ValueString (Key st))],
       resp_State = None\<rparr>, w)"
  using assms by (auto simp: Delete_def Get_def AddWarning_def)

lemma Delete_hard:
  assumes "tfeClient r = Some tfe" "s3Client r = Some s3"
    and "\<not> (softDelete r \<or> ValueBool (SoftDelete st))"
  shows "Delete r st w =
     (\<lparr>resp_Diagnostics =
         Append [] (fst (deleteS3Object s3 (ValueString (Bucket st)) (ValueString (Key st)) w)),
       resp_State = None\<rparr>,
      snd (deleteS3Object s3 (ValueString (Bucket st)) (ValueString (Key st)) w))"
  using assms by (auto simp: Delete_def Get_def split: prod.splits)

lemma Delete_unconfigured:
  "tfeClient r = None \<or> s3Client r = None \<Longrightarrow>
   snd (Delete r st w) = w \<and> resp_State (fst (Delete r st w)) = None"
  by (auto simp: Delete_def AddError_Nil)

lemma ex_put_accepted:
  "putS3ObjectContents ex_s3 (Some opts) w =
     (if o_Bucket opts = [] \<or> o_Key opts = [] \<or> o_Contents opts = []
      then putS3ObjectContents ex_s3 (Some opts) w
      else ([], w\<lparr>trace := trace w @ [S3Call (PutObject (newPutObjectInput opts))],
                  objects := (objects w)((o_Bucket opts, o_Key opts) \<mapsto> o_Contents opts)\<rparr>))"
  by (simp add: putS3ObjectContents_issued ex_s3_def)

lemma getStateFile_trace_tfe:
  "s3_requests (trace (snd (getStateFile client ws ie w))) = s3_requests (trace w) \<and>
   objects (snd (getStateFile client ws ie w)) = objects w"
  by (auto simp: getStateFile_def StateVersions_ReadCurrent_def StateVersions_Download_def
        s3_requests_append split: sum.splits)

lemma getStateFile_state:
  "getStateFile client ws ie w = ((state, d, ignored), w') \<Longrightarrow> \<not> HasError d \<Longrightarrow> \<not> ignored \<Longrightarrow>
   source_returns client ws state"
  by (auto simp: getStateFile_def StateVersions_ReadCurrent_def StateVersions_Download_def
        source_returns_def HasError_AddError split: sum.splits if_splits)

lemma put_empty_unchanged:
  "putS3ObjectContents client (Some opts) w = (d, w') \<Longrightarrow> o_Contents opts = [] \<Longrightarrow> w' = w"
  using putS3ObjectContents_rejected [of opts client w] by simp

lemma Create_without_state:
  assumes "tfeClient r = Some tfe" "s3Client r = Some s3"
    and "\<forall>S. source_returns tfe (ValueString (WorkspaceId plan)) S \<longrightarrow> S = []"
  shows "s3_requests (trace (snd (Create r plan w))) = s3_requests (trace w) \<and>
         objects (snd (Create r plan w)) = objects w"
proof -
  obtain state d ignored w1 where
    g: "getStateFile tfe (ValueString (WorkspaceId plan)) (ValueBool (IgnoreEmpty plan)) w
          = ((state, d, ignored), w1)"
    by (metis prod_cases3 surj_pair)
  have w1: "s3_requests (trace w1) = s3_requests (trace w)" "objects w1 = objects w"
    using getStateFile_trace_tfe [of tfe "ValueString (WorkspaceId plan)"
        "ValueBool (IgnoreEmpty plan)" w] g by simp_all
  show ?thesis
  proof (cases "HasError d \<or> ignored")
    case True
    then show ?thesis
      using assms(1,2) g w1
      by (auto simp: Create_def Get_def State_Set_def Let_def HasError_Append)
  next
    case False
    then have "source_returns tfe (ValueString (WorkspaceId plan)) state"
      using getStateFile_state [OF g] by simp
    with assms(3) have e: "state = []" by simp
    show ?thesis
      using assms(1,2) g w1 False e
      by (auto simp: Create_def Get_def State_Set_def Let_def HasError_Append
          split: prod.splits dest!: put_empty_unchanged)
  qed
qed

lemma Update_without_state:
  assumes "tfeClient r = Some tfe" "s3Client r = Some s3"
    and "\<forall>S. source_returns tfe (ValueString (WorkspaceId plan)) S \<longrightarrow> S = []"
  shows "s3_requests (trace (snd (Update r plan w))) = s3_requests (trace w) \<and>
         objects (snd (Update r plan w)) = objects w"
proof -
  obtain tags where t: "ElementsAs (Tags plan) = ([], tags)"
    using ElementsAs_no_diags [of "Tags plan"] by (cases "ElementsAs (Tags plan)") auto
  obtain state d ignored w1 where
    g: "getStateFile tfe (ValueString (WorkspaceId plan)) (ValueBool (IgnoreEmpty plan)) w
          = ((state, d, ignored), w1)"
    by (metis prod_cases3 surj_pair)
  have w1: "s3_requests (trace w1) = s3_requests (trace w)" "objects w1 = objects w"
    using getStateFile_trace_tfe [of tfe "ValueString (WorkspaceId plan)"
        "ValueBool (IgnoreEmpty plan)" w] g by simp_all
  show ?thesis
  proof (cases "HasError d \<or> ignored")
    case True
    then show ?thesis
      using assms(1,2) g w1 t
      by (auto simp: Update_def Get_def State_Set_def Let_def HasError_Append)
  next
    case False
    then have "source_returns tfe (ValueString (WorkspaceId plan)) state"
      using getStateFile_state [OF g] by simp
    with assms(3) have e: "state = []" by simp
    show ?thesis
      using assms(1,2) g w1 False e t
      by (auto simp: Update_def Get_def State_Set_def Let_def HasError_Append
          split: prod.splits dest!: put_empty_unchanged)
  qed
qed

text \<open>
  Claim C1. On a configured resource, when the resolve step of the state source reports
  no current state version and the record's \<open>ignoreEmpty\<close> flag is true, \<^verbatim>\<open>Create\<close> and
  \<^verbatim>\<open>Update\<close> each return a record with \<open>ignored\<close> true and both digests null, without an
  error; no request at all is made to the object store (so no write), and the stored
  objects are left as they were. More generally, whenever the state source returns no
  non-empty bytes (the state is missing, the fetch fails, or the state is empty),
  \<^verbatim>\<open>Create\<close> and \<^verbatim>\<open>Update\<close> make no request to the object store and leave the stored
  objects as they were.
\<close>

theorem Create_Update_ignored_no_write:
  assumes "tfeClient r = Some tfe" and "s3Client r = Some s3"
  shows
    "(resolve_not_found tfe (ValueString (WorkspaceId plan)) \<and> ValueBool (IgnoreEmpty plan) \<longrightarrow>
       (\<exists>m. resp_State (fst (Create r plan w)) = Some m \<and> Ignored m = BoolValue True \<and>
            StateContentsSha256 m = StringNull \<and> BucketContentsSha256 m = StringNull) \<and>
       \<not> HasError (resp_Diagnostics (fst (Create r plan w))) \<and>
       s3_requests (trace (snd (Create r plan w))) = s3_requests (trace w) \<and>
       objects (snd (Create r plan w)) = objects w \<and>
       (\<exists>m. resp_State (fst (Update r plan w)) = Some m \<and> Ignored m = BoolValue True \<and>
            StateContentsSha256 m = StringNull \<and> BucketContentsSha256 m = StringNull) \<and>
       \<not> HasError (resp_Diagnostics (fst (Update r plan w))) \<and>
       s3_requests (trace (snd (Update r plan w))) = s3_requests (trace w) \<and>
       objects (snd (Update r plan w)) = objects w) \<and>
     ((\<forall>S. source_returns tfe (ValueString (WorkspaceId plan)) S \<longrightarrow> S = []) \<longrightarrow>
       s3_requests (trace (snd (Create r plan w))) = s3_requests (trace w) \<and>
       objects (snd (Create r plan w)) = objects w \<and>
       s3_requests (trace (snd (Update r plan w))) = s3_requests (trace w) \<and>
       objects (snd (Update r plan w)) = objects w)"
proof -
  have "s3_requests (trace (snd (Create r plan w))) = s3_requests (trace w) \<and>
        objects (snd (Create r plan w)) = objects w \<and>
        s3_requests (trace (snd (Update r plan w))) = s3_requests (trace w) \<and>
        objects (snd (Update r plan w)) = objects w"
    if "\<forall>S. source_returns tfe (ValueString (WorkspaceId plan)) S \<longrightarrow> S = []"
    using Create_without_state [OF assms that] Update_without_state [OF assms that] by simp
  moreover have
     "(\<exists>m. resp_State (fst (Create r plan w)) = Some m \<and> Ignored m = BoolValue True \<and>
            StateContentsSha256 m = StringNull \<and> BucketContentsSha256 m = StringNull) \<and>
       \<not> HasError (resp_Diagnostics (fst (Create r plan w))) \<and>
       s3_requests (trace (snd (Create r plan w))) = s3_requests (trace w) \<and>
       objects (snd (Create r plan w)) = objects w \<and>
       (\<exists>m. resp_State (fst (Update r plan w)) = Some m \<and> Ignored m = BoolValue True \<and>
            StateContentsSha256 m = StringNull \<and> BucketContentsSha256 m = StringNull) \<and>
       \<not> HasError (resp_Diagnostics (fst (Update r plan w))) \<and>
       s3_requests (trace (snd (Update r plan w))) = s3_requests (trace w) \<and>
       objects (snd (Update r plan w)) = objects w"
    if n: "resolve_not_found tfe (ValueString (WorkspaceId plan))"
      and i: "ValueBool (IgnoreEmpty plan)"
    by (simp add: Create_ignored [OF assms n i] Update_ignored [OF assms n i]
        s3_requests_append)
  ultimately show ?thesis
    by blast
qed

theorem Create_Update_ignored_no_write_witness:
  "(\<exists>m. resp_State (fst (Create ex_resource_empty ex_plan ex_remote)) = Some m \<and>
        Ignored m = BoolValue True \<and>
        StateContentsSha256 m = StringNull \<and> BucketContentsSha256 m = StringNull) \<and>
   s3_requests (trace (snd (Create ex_resource_empty ex_plan ex_remote))) = [] \<and>
   objects (snd (Create ex_resource_empty ex_plan ex_remote)) (''backups'', ''state.json'')
     = Some ex_stored \<and>
   (\<exists>m. resp_State (fst (Update ex_resource_empty ex_plan ex_remote)) = Some m \<and>
        Ignored m = BoolValue True \<and>
        StateContentsSha256 m = StringNull \<and> BucketContentsSha256 m = StringNull) \<and>
   s3_requests (trace (snd (Update ex_resource_empty ex_plan ex_remote))) = [] \<and>
   objects (snd (Update ex_resource_empty ex_plan ex_remote)) (''backups'', ''state.json'')
     = Some ex_stored \<and>
   s3_requests (trace (snd (Create ex_resource_blank ex_plan ex_remote))) = [] \<and>
   s3_requests (trace (snd (Update ex_resource_blank ex_plan ex_remote))) = []"
proof -
  have n: "resolve_not_found ex_tfe_empty (ValueString (WorkspaceId ex_plan))"
    by (simp add: resolve_not_found_def ex_tfe_empty_def)
  have t: "s3_requests (trace ex_remote) = []"
    "objects ex_remote (''backups'', ''state.json'') = Some ex_stored"
    by (simp_all add: ex_remote_def)
  have c: "tfeClient ex_resource_blank = Some ex_tfe_blank"
    "s3Client ex_resource_blank = Some ex_s3"
    by (simp_all add: ex_resource_blank_def)
  have b: "\<forall>S. source_returns ex_tfe_blank (ValueString (WorkspaceId ex_plan)) S \<longrightarrow> S = []"
    by (simp add: source_returns_def ex_tfe_blank_def)
  show ?thesis
    using Create_Update_ignored_no_write [OF ex_configured(3,4), of ex_plan ex_remote]
      Create_Update_ignored_no_write [OF c, of ex_plan ex_remote]
      n ex_plan_fields(4) t b
    by simp
qed

text \<open>
  Claim C2, as amended. When the state source returns non-empty bytes \<open>S\<close>: the requests
  that \<^verbatim>\<open>Create\<close> (and likewise \<^verbatim>\<open>Update\<close>) makes to the object store are exactly one
  put, whose body is \<open>S\<close>, if the record's bucket and key are non-empty, and none
  otherwise (so there is never a get: no read-back); a record is returned exactly when
  bucket and key are non-empty and the store accepts the put; and every returned record
  has both digests equal to the lowercase hexadecimal SHA-256 of \<open>S\<close>.
\<close>

theorem Create_Update_write_then_digest:
  assumes "tfeClient r = Some tfe" and "s3Client r = Some s3"
    and "source_returns tfe (ValueString (WorkspaceId plan)) S" and "S \<noteq> []"
  shows
    "s3_requests (trace (snd (Create r plan w))) =
       s3_requests (trace w) @
         (if ValueString (Bucket plan) = [] \<or> ValueString (Key plan) = [] then []
          else [PutObject (newPutObjectInput (create_options plan S))]) \<and>
     in_Body (newPutObjectInput (create_options plan S)) = S \<and>
     (resp_State (fst (Create r plan w)) \<noteq> None \<longleftrightarrow>
        ValueString (Bucket plan) \<noteq> [] \<and> ValueString (Key plan) \<noteq> [] \<and>
        s3_fault s3 (PutObject (newPutObjectInput (create_options plan S))) = None) \<and>
     (\<forall>m. resp_State (fst (Create r plan w)) = Some m \<longrightarrow>
        StateContentsSha256 m = StringValue (hex_EncodeToString (sha256_Sum256 S)) \<and>
        BucketContentsSha256 m = StringValue (hex_EncodeToString (sha256_Sum256 S))) \<and>
     s3_requests (trace (snd (Update r plan w))) =
       s3_requests (trace w) @
         (if ValueString (Bucket plan) = [] \<or> ValueString (Key plan) = [] then []
          else [PutObject (newPutObjectInput (update_options plan S))]) \<and>
     in_Body (newPutObjectInput (update_options plan S)) = S \<and>
     (resp_State (fst (Update r plan w)) \<noteq> None \<longleftrightarrow>
        ValueString (Bucket plan) \<noteq> [] \<and> ValueString (Key plan) \<noteq> [] \<and>
        s3_fault s3 (PutObject (newPutObjectInput (update_options plan S))) = None) \<and>
     (\<forall>m. resp_State (fst (Update r plan w)) = Some m \<longrightarrow>
        StateContentsSha256 m = StringValue (hex_EncodeToString (sha256_Sum256 S)) \<and>
        BucketContentsSha256 m = StringValue (hex_EncodeToString (sha256_Sum256 S)))"
proof -
  let ?w1 = "w\<lparr>trace := trace w @ [ReadCurrentCall (ValueString (WorkspaceId plan)),
                     DownloadCall (source_url tfe (ValueString (WorkspaceId plan)))]\<rparr>"
  let ?oc = "create_options plan S" and ?ou = "update_options plan S"
  have oc: "o_Bucket ?oc = ValueString (Bucket plan)" "o_Key ?oc = ValueString (Key plan)"
    "o_Contents ?oc = S"
    by (simp_all add: create_options_def)
  have ou: "o_Bucket ?ou = ValueString (Bucket plan)" "o_Key ?ou = ValueString (Key plan)"
    "o_Contents ?ou = S"
    by (simp_all add: update_options_def)
  have tc: "s3_requests (trace (snd (Create r plan w))) =
       s3_requests (trace w) @
         (if ValueString (Bucket plan) = [] \<or> ValueString (Key plan) = [] then []
          else [PutObject (newPutObjectInput ?oc)])"
    using put_requests [of s3 ?oc ?w1] assms(4)
    by (simp add: Create_fetched [OF assms(1-3) refl] oc s3_requests_append split: prod.splits)
  have tu: "s3_requests (trace (snd (Update r plan w))) =
       s3_requests (trace w) @
         (if ValueString (Bucket plan) = [] \<or> ValueString (Key plan) = [] then []
          else [PutObject (newPutObjectInput ?ou)])"
    using put_requests [of s3 ?ou ?w1] assms(4)
    by (simp add: Update_fetched [OF assms(1-3) refl] ou s3_requests_append split: prod.splits)
  have sc: "resp_State (fst (Create r plan w)) \<noteq> None \<longleftrightarrow>
        ValueString (Bucket plan) \<noteq> [] \<and> ValueString (Key plan) \<noteq> [] \<and>
        s3_fault s3 (PutObject (newPutObjectInput ?oc)) = None"
    using put_accepted [of s3 ?oc ?w1] assms(4)
    by (auto simp: Create_fetched [OF assms(1-3) refl] oc)
  have su: "resp_State (fst (Update r plan w)) \<noteq> None \<longleftrightarrow>
        ValueString (Bucket plan) \<noteq> [] \<and> ValueString (Key plan) \<noteq> [] \<and>
        s3_fault s3 (PutObject (newPutObjectInput ?ou)) = None"
    using put_accepted [of s3 ?ou ?w1] assms(4)
    by (auto simp: Update_fetched [OF assms(1-3) refl] ou)
  have dc: "resp_State (fst (Create r plan w)) = Some m \<Longrightarrow>
        StateContentsSha256 m = StringValue (hex_EncodeToString (sha256_Sum256 S)) \<and>
        BucketContentsSha256 m = StringValue (hex_EncodeToString (sha256_Sum256 S))" for m
    by (auto simp: Create_fetched [OF assms(1-3) refl] sha256Contents_def
        split: prod.splits if_splits)
  have du: "resp_State (fst (Update r plan w)) = Some m \<Longrightarrow>
        StateContentsSha256 m = StringValue (hex_EncodeToString (sha256_Sum256 S)) \<and>
        BucketContentsSha256 m = StringValue (hex_EncodeToString (sha256_Sum256 S))" for m
    by (auto simp: Update_fetched [OF assms(1-3) refl] sha256Contents_def
        split: prod.splits if_splits)
  have bc: "in_Body (newPutObjectInput ?oc) = S" "in_Body (newPutObjectInput ?ou) = S"
    by (simp_all add: in_Body_newPutObjectInput oc ou)
  show ?thesis
    using tc tu sc su dc du bc by blast
qed

theorem Create_Update_write_then_digest_witness:
  "(\<exists>m. resp_State (fst (Create ex_resource ex_plan ex_remote)) = Some m \<and>
        StateContentsSha256 m = StringValue (hex_EncodeToString (sha256_Sum256 ex_state)) \<and>
        BucketContentsSha256 m = StringValue (hex_EncodeToString (sha256_Sum256 ex_state))) \<and>
   (\<exists>input. s3_requests (trace (snd (Create ex_resource ex_plan ex_remote))) = [PutObject input]
        \<and> in_Body input = ex_state) \<and>
   (\<exists>m. resp_State (fst (Update ex_resource ex_plan ex_remote)) = Some m \<and>
        StateContentsSha256 m = StringValue (hex_EncodeToString (sha256_Sum256 ex_state)) \<and>
        BucketContentsSha256 m = StringValue (hex_EncodeToString (sha256_Sum256 ex_state))) \<and>
   (\<exists>input. s3_requests (trace (snd (Update ex_resource ex_plan ex_remote))) = [PutObject input]
        \<and> in_Body input = ex_state)"
proof -
  have t: "s3_requests (trace ex_remote) = []"
    by (simp add: ex_remote_def)
  have f: "s3_fault ex_s3 q = None" for q
    by (simp add: ex_s3_def)
  show ?thesis
    using Create_Update_write_then_digest [OF ex_configured(1,2) ex_source_returns ex_state_not_empty, of ex_plan ex_remote]
    by (auto simp: t f ex_plan_fields in_Body_newPutObjectInput create_options_def
        update_options_def)
qed

text \<open>
  Claim C2 as stated promises one put for every call in which the state source returns
  non-empty bytes. With an empty bucket the write precondition stops the call: there is no
  put, and no record is returned.
\<close>

theorem Create_empty_bucket_counterexample:
  "source_returns ex_tfe (ValueString (WorkspaceId ex_plan_no_bucket)) ex_state \<and>
   ex_state \<noteq> [] \<and>
   s3_requests (trace (snd (Create ex_resource ex_plan_no_bucket ex_remote))) = [] \<and>
   resp_State (fst (Create ex_resource ex_plan_no_bucket ex_remote)) = None \<and>
   HasError (resp_Diagnostics (fst (Create ex_resource ex_plan_no_bucket ex_remote)))"
proof -
  have s: "source_returns ex_tfe (ValueString (WorkspaceId ex_plan_no_bucket)) ex_state"
    by (rule ex_source_returns)
  have b: "o_Bucket (create_options ex_plan_no_bucket ex_state) = []"
    by (simp add: create_options_def ex_plan_no_bucket_def)
  have e: "s3_requests (trace ex_remote) = []"
    by (simp add: ex_remote_def)
  show ?thesis
    using s ex_state_not_empty
      putS3ObjectContents_rejected [of "create_options ex_plan_no_bucket ex_state" ex_s3] b
    by (simp add: Create_fetched [OF ex_configured(1,2) s refl] HasError_Append e
        s3_requests_append)
qed



text \<open>
  \<^verbatim>\<open>Create\<close> and \<^verbatim>\<open>Read\<close> set the id of the record they return from its workspace id,
  bucket and key. \<^verbatim>\<open>Update\<close> has no such assignment: the record it returns carries
  the id of the planned record.
\<close>

lemma Create_recomputes_Id:
  "resp_State (fst (Create r plan w)) = Some m \<Longrightarrow> Id m = newS3ObjectResourceID m"
  by (auto simp: Create_def Get_def State_Set_def newS3ObjectResourceID_def Let_def
      split: if_splits prod.splits option.splits)

lemma Read_recomputes_Id:
  "resp_State (fst (Read r st w)) = Some m \<Longrightarrow> Id m = newS3ObjectResourceID m"
  by (auto simp: Read_def Get_def State_Set_def newS3ObjectResourceID_def Let_def
      split: if_splits prod.splits option.splits)

lemma Update_keeps_Id:
  "resp_State (fst (Update r plan w)) = Some m \<Longrightarrow>
   Id m = Id plan \<and> WorkspaceId m = WorkspaceId plan \<and> Bucket m = Bucket plan \<and> Key m = Key plan"
  by (auto simp: Update_def Get_def State_Set_def Let_def
      split: if_splits prod.splits option.splits)

text \<open>
  Claim C4 does not hold of \<^verbatim>\<open>Update\<close>. The planned record below has the bucket
  \<^verbatim>\<open>backups\<close> and an id computed for the bucket \<^verbatim>\<open>old-bucket\<close>; the record \<^verbatim>\<open>Update\<close>
  returns keeps that id, which is not the id of its workspace id, bucket and key.
\<close>

theorem Update_keeps_planned_Id:
  "\<exists>m. resp_State (fst (Update ex_resource ex_plan_moved ex_remote)) = Some m \<and>
        Id m = StringValue ''ws-1/old-bucket/state.json'' \<and>
        newS3ObjectResourceID m = StringValue ''ws-1/backups/state.json''"
proof -
  have s: "source_returns ex_tfe (ValueString (WorkspaceId ex_plan_moved)) ex_state"
    by (rule ex_source_returns)
  have v: "ValueString (Bucket ex_plan_moved) = ''backups''"
    "ValueString (Key ex_plan_moved) = ''state.json''"
    "ValueString (WorkspaceId ex_plan_moved) = ''ws-1''"
    "Id ex_plan_moved = StringValue ''ws-1/old-bucket/state.json''"
    by (simp_all add: ex_plan_moved_def ex_plan_def)
  show ?thesis
    unfolding Update_fetched [OF ex_configured(1,2) s refl]
    by (simp add: ex_put_accepted update_options_def v ex_state_def newS3ObjectResourceID_def)
qed

text \<open>
  Claim C5 does not hold of \<^verbatim>\<open>Create\<close>. The planned record has one tag; the put request
  of \<^verbatim>\<open>Create\<close> carries no tag string, where the put request of \<^verbatim>\<open>Update\<close> for the same
  record carries \<^verbatim>\<open>MyTag=MyValue\<close>.
\<close>

theorem Create_drops_tags:
  "Tags ex_plan = MapValue [(''MyTag'', StringValue ''MyValue'')] \<and>
   (\<exists>input. s3_requests (trace (snd (Create ex_resource ex_plan ex_remote))) = [PutObject input]
        \<and> in_Tagging input = None) \<and>
   (\<exists>input. s3_requests (trace (snd (Update ex_resource ex_plan ex_remote))) = [PutObject input]
        \<and> in_Tagging input = Some ''MyTag=MyValue'')"
proof -
  have s: "source_returns ex_tfe (ValueString (WorkspaceId ex_plan)) ex_state"
    by (rule ex_source_returns)
  have t: "Tags ex_plan = MapValue [(''MyTag'', StringValue ''MyValue'')]"
    by (simp add: ex_plan_def)
  have c: "s3_requests (trace (snd (Create ex_resource ex_plan ex_remote))) =
             [PutObject (newPutObjectInput (create_options ex_plan ex_state))]"
    by (simp add: Create_fetched [OF ex_configured(1,2) s refl] ex_put_accepted
        create_options_def ex_plan_fields ex_state_def ex_remote_def)
  have u: "s3_requests (trace (snd (Update ex_resource ex_plan ex_remote))) =
             [PutObject (newPutObjectInput (update_options ex_plan ex_state))]"
    by (simp add: Update_fetched [OF ex_configured(1,2) s refl] ex_put_accepted
        update_options_def ex_plan_fields ex_state_def ex_remote_def)
  have ci: "in_Tagging (newPutObjectInput (create_options ex_plan ex_state)) = None"
    by (simp add: newPutObjectInput_def create_options_def Let_def)
  have ui: "in_Tagging (newPutObjectInput (update_options ex_plan ex_state))
              = Some ''MyTag=MyValue''"
    by (simp add: newPutObjectInput_def update_options_def Let_def t newTags_example)
  show ?thesis
    using t c u ci ui by simp
qed

lemma Create_never_tags: "in_Tagging (newPutObjectInput (create_options plan S)) = None"
  by (simp add: newPutObjectInput_def create_options_def Let_def)

lemma Create_kms_from_plan:
  "in_SSEKMSKeyId (newPutObjectInput (create_options plan S)) =
     (if ValueString (KmsKeyId plan) = [] then None else Some (ValueString (KmsKeyId plan)))"
  by (simp add: newPutObjectInput_def create_options_def Let_def)

text \<open>
  Claim C6, as amended. With effective soft delete the disjunction of the provider-wide
  default and the record's flag, on a resource that holds both clients: if it is true,
  \<^verbatim>\<open>Delete\<close> makes no request to the object store and returns exactly one warning and no
  error; if it is false, \<^verbatim>\<open>Delete\<close> makes exactly one request, the delete of
  (bucket, key), and returns no warning. On a resource that lacks a client, \<^verbatim>\<open>Delete\<close>
  stops at its first check: it makes no request and returns an error and no warning,
  whatever the soft-delete flags.
\<close>

theorem Delete_soft_delete_policy:
  "(tfeClient r \<noteq> None \<and> s3Client r \<noteq> None \<longrightarrow>
      (softDelete r \<or> ValueBool (SoftDelete st) \<longrightarrow>
         s3_requests (trace (snd (Delete r st w))) = s3_requests (trace w) \<and>
         length (Warnings (resp_Diagnostics (fst (Delete r st w)))) = 1 \<and>
         \<not> HasError (resp_Diagnostics (fst (Delete r st w)))) \<and>
      (\<not> (softDelete r \<or> ValueBool (SoftDelete st)) \<longrightarrow>
         s3_requests (trace (snd (Delete r st w))) =
           s3_requests (trace w) @ [DeleteObject (ValueString (Bucket st)) (ValueString (Key st))] \<and>
         Warnings (resp_Diagnostics (fst (Delete r st w))) = [])) \<and>
   (tfeClient r = None \<or> s3Client r = None \<longrightarrow>
      s3_requests (trace (snd (Delete r st w))) = s3_requests (trace w) \<and>
      Warnings (resp_Diagnostics (fst (Delete r st w))) = [] \<and>
      HasError (resp_Diagnostics (fst (Delete r st w))))"
proof (cases "tfeClient r = None \<or> s3Client r = None")
  case True
  then show ?thesis
    by (auto simp: Delete_def AddError_Nil Warnings_def)
next
  case False
  then obtain tfe s3 where c: "tfeClient r = Some tfe" "s3Client r = Some s3"
    by auto
  show ?thesis
  proof (cases "softDelete r \<or> ValueBool (SoftDelete st)")
    case True
    then show ?thesis
      using c by (simp add: Delete_soft [OF c True] Warnings_def)
  next
    case False
    then show ?thesis
      using c
      by (simp add: Delete_hard [OF c False] deleteS3Object_trace s3_requests_append
          deleteS3Object_no_warning)
  qed
qed

theorem Delete_soft_delete_policy_witness:
  "s3_requests (trace (snd (Delete ex_resource ex_plan_soft ex_remote))) = [] \<and>
   length (Warnings (resp_Diagnostics (fst (Delete ex_resource ex_plan_soft ex_remote)))) = 1 \<and>
   s3_requests (trace (snd (Delete ex_resource_soft ex_plan ex_remote))) = [] \<and>
   length (Warnings (resp_Diagnostics (fst (Delete ex_resource_soft ex_plan ex_remote)))) = 1 \<and>
   s3_requests (trace (snd (Delete ex_resource ex_plan ex_remote))) =
     [DeleteObject ''backups'' ''state.json''] \<and>
   Warnings (resp_Diagnostics (fst (Delete ex_resource ex_plan ex_remote))) = [] \<and>
   s3_requests (trace (snd (Delete ex_resource_unconfigured ex_plan_soft ex_remote))) = [] \<and>
   Warnings (resp_Diagnostics (fst (Delete ex_resource_unconfigured ex_plan_soft ex_remote))) = []"
proof -
  have c: "tfeClient ex_resource_soft \<noteq> None" "s3Client ex_resource_soft \<noteq> None"
    "softDelete ex_resource_soft" "\<not> softDelete ex_resource"
    "tfeClient ex_resource \<noteq> None" "s3Client ex_resource \<noteq> None"
    "tfeClient ex_resource_unconfigured = None"
    by (simp_all add: ex_resource_soft_def ex_resource_def ex_resource_unconfigured_def)
  have p: "ValueBool (SoftDelete ex_plan_soft)" "\<not> ValueBool (SoftDelete ex_plan)"
    "ValueString (Bucket ex_plan_soft) = ''backups''"
    "ValueString (Key ex_plan_soft) = ''state.json''"
    by (simp_all add: ex_plan_soft_def ex_plan_def)
  have e: "s3_requests (trace ex_remote) = []"
    by (simp add: ex_remote_def)
  show ?thesis
    using Delete_soft_delete_policy [of ex_resource ex_plan_soft ex_remote]
      Delete_soft_delete_policy [of ex_resource_soft ex_plan ex_remote]
      Delete_soft_delete_policy [of ex_resource ex_plan ex_remote]
      Delete_soft_delete_policy [of ex_resource_unconfigured ex_plan_soft ex_remote]
    by (simp add: c p e ex_plan_fields)
qed

text \<open>
  Claim C6 as stated speaks of every \<^verbatim>\<open>Delete\<close> call. On a resource without clients
  and with soft delete false it promises one delete request, and with soft delete true
  one warning and no error; \<^verbatim>\<open>Delete\<close> makes no request and returns an error and no
  warning in both cases.
\<close>

theorem Delete_unconfigured_counterexample:
  "softDelete ex_resource_unconfigured = False \<and>
   ValueBool (SoftDelete ex_plan) = False \<and>
   s3_requests (trace (snd (Delete ex_resource_unconfigured ex_plan ex_remote))) = [] \<and>
   HasError (resp_Diagnostics (fst (Delete ex_resource_unconfigured ex_plan ex_remote))) \<and>
   ValueBool (SoftDelete ex_plan_soft) = True \<and>
   Warnings (resp_Diagnostics (fst (Delete ex_resource_unconfigured ex_plan_soft ex_remote))) = [] \<and>
   HasError (resp_Diagnostics (fst (Delete ex_resource_unconfigured ex_plan_soft ex_remote)))"
  by (simp add: Delete_def ex_resource_unconfigured_def ex_plan_def ex_plan_soft_def
      ex_remote_def AddError_Nil Warnings_def)

text \<open>
  Claim C10. \<^verbatim>\<open>Delete\<close> makes no call to the state source, and its result does not
  depend on which state source the resource holds; it never sets the state of the
  response, so its only outputs are diagnostics; and either it leaves the remote world as
  it was, or its one effect is a single delete request for (bucket, key), after which
  the stored objects are as before or without that object.
\<close>

theorem Delete_frame:
  "tfe_calls (trace (snd (Delete r st w))) = tfe_calls (trace w) \<and>
   resp_State (fst (Delete r st w)) = None \<and>
   (snd (Delete r st w) = w \<or>
    trace (snd (Delete r st w)) =
      trace w @ [S3Call (DeleteObject (ValueString (Bucket st)) (ValueString (Key st)))] \<and>
    (objects (snd (Delete r st w)) = objects w \<or>
     objects (snd (Delete r st w)) =
       (objects w)((ValueString (Bucket st), ValueString (Key st)) := None))) \<and>
   (\<forall>tfe'. tfeClient r \<noteq> None \<longrightarrow> Delete (r\<lparr>tfeClient := Some tfe'\<rparr>) st w = Delete r st w)"
proof (cases "tfeClient r = None \<or> s3Client r = None")
  case True
  then show ?thesis
    using Delete_unconfigured [OF True, of st w] by (auto simp: Delete_def AddError_Nil)
next
  case False
  then obtain tfe s3 where c: "tfeClient r = Some tfe" "s3Client r = Some s3"
    by auto
  have i: "Delete (r\<lparr>tfeClient := Some tfe'\<rparr>) st w = Delete r st w" for tfe'
    using c by (simp add: Delete_def Get_def)
  show ?thesis
  proof (cases "softDelete r \<or> ValueBool (SoftDelete st)")
    case True
    then show ?thesis
      using i c by (simp add: Delete_soft [OF c True])
  next
    case False
    then show ?thesis
      using i c deleteS3Object_objects [of s3 "ValueString (Bucket st)" "ValueString (Key st)" w]
      by (simp add: Delete_hard [OF c False] deleteS3Object_trace tfe_calls_append)
  qed
qed

theorem Delete_frame_witness:
  "tfe_calls (trace (snd (Delete ex_resource ex_plan ex_remote))) = [] \<and>
   resp_State (fst (Delete ex_resource ex_plan ex_remote)) = None \<and>
   Delete (ex_resource\<lparr>tfeClient := Some ex_tfe_empty\<rparr>) ex_plan ex_remote
     = Delete ex_resource ex_plan ex_remote"
proof -
  have e: "tfe_calls (trace ex_remote) = []"
    by (simp add: ex_remote_def)
  have c: "tfeClient ex_resource \<noteq> None"
    by (simp add: ex_resource_def)
  show ?thesis
    using Delete_frame [of ex_resource ex_plan ex_remote] e c by simp
qed

end
